theory Spec2Isabelle
  imports Main "HOL-Library.Word"
begin

unbundle bit_operations_syntax

section \<open>The USB layer as the transports see it\<close>

text \<open>
  The transports of mspdebug talk to libusb. A device handle is a pointer
  (\<open>struct libusb_device_handle *\<close>); it is modelled as a number, 0 being NULL.
  Every libusb call a transport makes is recorded as a \<open>usb_call\<close>, in the order
  of the calls, so that a property of what goes over the wire is a property of
  the list of calls a function returns.
\<close>

type_synonym byte = "8 word"
type_synonym handle = nat

definition NULL :: handle where
  "NULL = 0"

text \<open>libusb's error code for a transfer that timed out (libusb.h).\<close>

definition LIBUSB_ERROR_TIMEOUT :: int where
  "LIBUSB_ERROR_TIMEOUT = - 7"

datatype usb_call =
    Open int int
  | Close handle
  | KernelDriverActive handle int
  | DetachKernelDriver handle int
  | SetConfiguration handle int
  | ClaimInterface handle int
  | ReleaseInterface handle int
  | Control handle "8 word" "8 word" "16 word" "16 word" "byte list"
  | BulkOut handle int "byte list"
  | BulkIn handle int int
  | InterruptIn handle int int
  | ClearHalt handle int

text \<open>
  Every failure of the C code is a \<open>return -1\<close> (or \<open>NULL\<close>) after a message;
  the model keeps one error per message.
\<close>

datatype error =
    Suspended
  | MtuExceeded
  | TransferFailure
  | ShortTransfer
  | BadHeader
  | BadLength
  | ReadTimeout
  | ControlFailure
  | DiscoveryFailure
  | ConfigurationFailure
  | FirmwareGap
  | FirmwareTooLarge
  | Crash

section \<open>Modem control lines: CP210x and FTDI\<close>

text \<open>
  \<open>transport_modem_t\<close> is a bit mask; the two masks \<open>TRANSPORT_MODEM_DTR\<close> and
  \<open>TRANSPORT_MODEM_RTS\<close> are declared in transport.h, which is not among the
  sources, so they are parameters \<open>m_dtr\<close> and \<open>m_rts\<close> of the two functions.
  A C \<open>int\<close> used as a bit mask is a 32-bit word; the control transfer takes
  its \<open>wValue\<close> as a 16-bit word.
\<close>

definition CP210x_REQTYPE_HOST_TO_DEVICE :: "8 word" where
  "CP210x_REQTYPE_HOST_TO_DEVICE = 0x41"

definition CP210X_SET_MHS :: "8 word" where
  "CP210X_SET_MHS = 0x07"

definition CP210X_DTR :: "32 word" where
  "CP210X_DTR = 0x0001"

definition CP210X_RTS :: "32 word" where
  "CP210X_RTS = 0x0002"

definition CP210X_WRITE_DTR :: "32 word" where
  "CP210X_WRITE_DTR = 0x0100"

definition CP210X_WRITE_RTS :: "32 word" where
  "CP210X_WRITE_RTS = 0x0200"

text \<open>
  \<open>usbtr_set_modem\<close> of the CP210x transport. \<open>ctrl\<close> is the device: the value
  \<open>libusb_control_transfer\<close> returns for a call.
\<close>

definition cp210x_usbtr_set_modem ::
  "32 word \<Rightarrow> 32 word \<Rightarrow> (usb_call \<Rightarrow> int) \<Rightarrow> handle \<Rightarrow> 32 word
     \<Rightarrow> usb_call list \<times> (error + unit)" where
  "cp210x_usbtr_set_modem m_dtr m_rts ctrl h state =
     (let value0 = CP210X_WRITE_DTR OR CP210X_WRITE_RTS;
          value1 = (if state AND m_dtr = 0 then value0 OR CP210X_DTR else value0);
          value2 = (if state AND m_rts = 0 then value1 OR CP210X_RTS else value1);
          c = Control h CP210x_REQTYPE_HOST_TO_DEVICE CP210X_SET_MHS (ucast value2) 0 []
      in if ctrl c \<noteq> 0 then ([c], Inl ControlFailure) else ([c], Inr ()))"

definition REQTYPE_HOST_TO_DEVICE :: "8 word" where
  "REQTYPE_HOST_TO_DEVICE = 0x40"

definition FTDI_SIO_RESET :: "8 word" where
  "FTDI_SIO_RESET = 0"

definition FTDI_SIO_MODEM_CTRL :: "8 word" where
  "FTDI_SIO_MODEM_CTRL = 1"

definition FTDI_SIO_RESET_PURGE_RX :: "32 word" where
  "FTDI_SIO_RESET_PURGE_RX = 1"

definition FTDI_DTR :: "32 word" where
  "FTDI_DTR = 0x0001"

definition FTDI_RTS :: "32 word" where
  "FTDI_RTS = 0x0002"

definition FTDI_WRITE_DTR :: "32 word" where
  "FTDI_WRITE_DTR = 0x0100"

definition FTDI_WRITE_RTS :: "32 word" where
  "FTDI_WRITE_RTS = 0x0200"

text \<open>\<open>do_cfg\<close> of ftdi.c: one control transfer without payload.\<close>

definition do_cfg ::
  "(usb_call \<Rightarrow> int) \<Rightarrow> handle \<Rightarrow> 8 word \<Rightarrow> 32 word \<Rightarrow> usb_call list \<times> (error + unit)" where
  "do_cfg ctrl h request val =
     (let c = Control h REQTYPE_HOST_TO_DEVICE request (ucast val) 0 []
      in if ctrl c \<noteq> 0 then ([c], Inl ControlFailure) else ([c], Inr ()))"

text \<open>
  The FTDI transport instance, \<open>struct ftdi_transport\<close>, holds the handle only.
  The instances live in a store, from addresses to instances. \<open>malloc\<close> gives
  a block that is not initialised: the model takes the address \<open>fresh\<close> it
  returns and the instance \<open>junk\<close> that happens to be there as parameters.
  A \<open>fresh\<close> of 0 is a failed \<open>malloc\<close>; the C code then reads through a null
  pointer, which the model reports as \<open>None\<close>.
\<close>

record ftdi_transport =
  ftdi_handle :: handle

type_synonym ftdi_store = "nat \<rightharpoonup> ftdi_transport"

definition malloc_ftdi :: "ftdi_store \<Rightarrow> nat \<Rightarrow> ftdi_transport \<Rightarrow> ftdi_store" where
  "malloc_ftdi st fresh junk = st(fresh \<mapsto> junk)"

text \<open>
  \<open>tr_flush\<close> and \<open>tr_set_modem\<close> of ftdi.c, with the caller's instance
  \<open>tr_base\<close>. Both begin with
  \<^verbatim>\<open>struct ftdi_transport *tr = malloc(sizeof(*tr));\<close>
  and use \<open>tr->handle\<close> of that block.
\<close>

definition tr_flush ::
  "(usb_call \<Rightarrow> int) \<Rightarrow> ftdi_store \<Rightarrow> nat \<Rightarrow> ftdi_transport \<Rightarrow> nat
     \<Rightarrow> (usb_call list \<times> (error + unit)) option" where
  "tr_flush ctrl st fresh junk tr_base =
     (let st' = malloc_ftdi st fresh junk in
      if fresh = 0 then None
      else case st' fresh of
             None \<Rightarrow> None
           | Some tr \<Rightarrow> Some (do_cfg ctrl (ftdi_handle tr) FTDI_SIO_RESET FTDI_SIO_RESET_PURGE_RX))"

definition tr_set_modem ::
  "32 word \<Rightarrow> 32 word \<Rightarrow> (usb_call \<Rightarrow> int) \<Rightarrow> ftdi_store \<Rightarrow> nat \<Rightarrow> ftdi_transport \<Rightarrow> nat
     \<Rightarrow> 32 word \<Rightarrow> (usb_call list \<times> (error + unit)) option" where
  "tr_set_modem m_dtr m_rts ctrl st fresh junk tr_base state =
     (let st' = malloc_ftdi st fresh junk;
          value0 = FTDI_WRITE_DTR OR FTDI_WRITE_RTS;
          value1 = (if state AND m_dtr = 0 then value0 OR FTDI_DTR else value0);
          value2 = (if state AND m_rts = 0 then value1 OR FTDI_RTS else value1)
      in if fresh = 0 then None
         else case st' fresh of
                None \<Rightarrow> None
              | Some tr \<Rightarrow> Some (do_cfg ctrl (ftdi_handle tr) FTDI_SIO_MODEM_CTRL value2))"

text \<open>The \<open>wValue\<close> of the control transfers in a list of calls.\<close>

fun wire_values :: "usb_call list \<Rightarrow> 16 word list" where
  "wire_values [] = []"
| "wire_values (Control h rt rq v i d # cs) = v # wire_values cs"
| "wire_values (c # cs) = wire_values cs"

text \<open>The handles of the control transfers in a list of calls.\<close>

fun control_handles :: "usb_call list \<Rightarrow> handle list" where
  "control_handles [] = []"
| "control_handles (Control h rt rq v i d # cs) = h # control_handles cs"
| "control_handles (c # cs) = control_handles cs"

section \<open>Bulk transfers\<close>

text \<open>
  A bulk write answers with its return code and the count \<open>sent\<close>; libusb
  never reports more than was offered. A bulk read answers with its return
  code and the bytes it stored at the front of the buffer; their number is
  the count the C code calls \<open>r\<close>, \<open>received\<close> or \<open>rlen\<close>.

  The send loop of every transport is
  \<^verbatim>\<open>while (len) { rc = libusb_bulk_transfer(h, ep, data, len, &sent, T);
               if (rc != 0 && rc != LIBUSB_ERROR_TIMEOUT) return -1;
               data += sent; len -= sent; }\<close>
  It ends only when the device has taken everything, so the answers of the
  device are a list, and the loop gives \<open>None\<close> when the list ends before
  the loop does.
\<close>

fun bulk_send_loop ::
  "handle \<Rightarrow> int \<Rightarrow> byte list \<Rightarrow> (int \<times> nat) list
     \<Rightarrow> (usb_call list \<times> (error + unit)) option" where
  "bulk_send_loop h ep data [] = (if data = [] then Some ([], Inr ()) else None)"
| "bulk_send_loop h ep data ((rc, sent) # rest) =
     (if data = [] then Some ([], Inr ())
      else if rc \<noteq> 0 \<and> rc \<noteq> LIBUSB_ERROR_TIMEOUT
        then Some ([BulkOut h ep data], Inl TransferFailure)
      else case bulk_send_loop h ep (drop sent data) rest of
             None \<Rightarrow> None
           | Some (cs, res) \<Rightarrow> Some (BulkOut h ep data # cs, res))"

section \<open>The HID transport (bslhid.c)\<close>

definition BSLHID_XFER_SIZE :: nat where
  "BSLHID_XFER_SIZE = 64"

definition BSLHID_MTU :: nat where
  "BSLHID_MTU = BSLHID_XFER_SIZE - 2"

definition BSLHID_HEADER :: byte where
  "BSLHID_HEADER = 0x3F"

text \<open>
  \<open>struct bslhid_transport\<close>. The two character arrays hold C strings:
  \<open>path\<close> has room for 7 characters and \<open>serial\<close> for 127.
\<close>

record bslhid_transport =
  cfg_number :: int
  int_number :: int
  handle :: handle
  in_ep :: int
  out_ep :: int
  path :: string
  serial :: string

text \<open>
  The frame \<open>bslhid_send\<close> builds in its local \<open>outbuf\<close>:
  \<^verbatim>\<open>memset(outbuf, 0xac, sizeof(outbuf));
  outbuf[0] = BSLHID_HEADER; outbuf[1] = len; memcpy(outbuf + 2, data, len);\<close>
\<close>

definition bslhid_outbuf :: "byte list \<Rightarrow> byte list" where
  "bslhid_outbuf data =
     (let outbuf0 = replicate BSLHID_XFER_SIZE (0xAC :: byte);
          outbuf1 = outbuf0[0 := BSLHID_HEADER];
          outbuf2 = outbuf1[1 := of_nat (length data)]
      in take 2 outbuf2 @ data @ drop (2 + length data) outbuf2)"

text \<open>
  \<open>bslhid_send\<close>: \<open>len\<close> is the length of \<open>data\<close>. After the frame is built,
  the loop transfers \<open>data\<close> and \<open>len\<close>, not \<open>outbuf\<close>.
\<close>

definition bslhid_send ::
  "bslhid_transport \<Rightarrow> byte list \<Rightarrow> (int \<times> nat) list
     \<Rightarrow> (usb_call list \<times> (error + unit)) option" where
  "bslhid_send tr data script =
     (if handle tr = NULL then Some ([], Inl Suspended)
      else let outbuf = bslhid_outbuf data in
        if length data > BSLHID_MTU then Some ([], Inl MtuExceeded)
        else bulk_send_loop (handle tr) (out_ep tr) data script)"

text \<open>
  \<open>bslhid_recv\<close>: one bulk read into the 64-byte \<open>inbuf\<close>, answered by the
  device with \<open>(rc, inbuf)\<close>, where \<open>inbuf\<close> is the bytes received and \<open>r\<close>
  their number. The two header bytes are read after \<open>r < 2\<close> is excluded.
\<close>

definition bslhid_recv ::
  "bslhid_transport \<Rightarrow> int \<Rightarrow> int \<times> byte list \<Rightarrow> usb_call list \<times> (error + byte list)" where
  "bslhid_recv tr max_len xfer =
     (if handle tr = NULL then ([], Inl Suspended)
      else
        let rc = fst xfer; inbuf = snd xfer; r = int (length inbuf);
            cs = [BulkIn (handle tr) (in_ep tr) (int BSLHID_XFER_SIZE)]
        in if rc \<noteq> 0 \<and> rc \<noteq> LIBUSB_ERROR_TIMEOUT then (cs, Inl TransferFailure)
           else if r < 2 then (cs, Inl ShortTransfer)
           else if inbuf ! 0 \<noteq> BSLHID_HEADER then (cs, Inl BadHeader)
           else let len = uint (inbuf ! 1)
                in if len > max_len \<or> len + 2 > r then (cs, Inl BadLength)
                   else (cs, Inr (take (nat len) (drop 2 inbuf))))"

text \<open>\<open>bslhid_suspend\<close>: releases and closes, and clears the handle only.\<close>

definition bslhid_suspend :: "bslhid_transport \<Rightarrow> usb_call list \<times> bslhid_transport" where
  "bslhid_suspend tr =
     (if handle tr \<noteq> NULL
      then ([ReleaseInterface (handle tr) (int_number tr), Close (handle tr)],
            tr\<lparr>handle := NULL\<rparr>)
      else ([], tr))"

section \<open>Devices and the locator (usbutil.c)\<close>

text \<open>
  What libusb reports of a device, \<open>struct libusb_device *\<close>: its place on
  the bus, its descriptors (with the return codes of the calls that read
  them), the serial number string \<open>read_serial\<close> obtains (\<open>None\<close> when it
  fails), and the handle \<open>libusb_open\<close> stores when it succeeds. An endpoint
  is \<open>(bmAttributes, bEndpointAddress)\<close>. The return code of every other
  call is given by the function \<open>usb\<close> the transports take.
\<close>

record usb_interface =
  bInterfaceClass :: int
  bInterfaceNumber :: int
  endpoints :: "(8 word \<times> 8 word) list"

record usb_device =
  bus_number :: int
  device_address :: int
  descriptor_rc :: int
  idVendor :: int
  idProduct :: int
  bNumConfigurations :: int
  serial_number :: "string option"
  config_rc :: int
  bConfigurationValue :: int
  interfaces :: "usb_interface list"
  open_rc :: int
  open_handle :: handle

datatype platform = Linux | Windows | MacOS | OtherOS

text \<open>
  \<open>libusb_open(dev, &tr->handle)\<close> stores a handle only when it succeeds; the
  C code then tests the handle, not the return code.
\<close>

definition libusb_open :: "usb_device \<Rightarrow> handle \<Rightarrow> handle" where
  "libusb_open dev old = (if open_rc dev = 0 then open_handle dev else old)"

text \<open>\<open>strtok\<close> with the delimiters \<open>":\t\r\n"\<close>: the next token and the rest.\<close>

definition is_delim :: "char \<Rightarrow> bool" where
  "is_delim c = (c \<in> set [CHR '':'', CHR 0x09, CHR 0x0D, CHR 0x0A])"

definition strtok :: "string \<Rightarrow> (string \<times> string) option" where
  "strtok s =
     (let s1 = dropWhile is_delim s
      in if s1 = [] then None
         else Some (takeWhile (\<lambda>c. \<not> is_delim c) s1,
                    drop 1 (dropWhile (\<lambda>c. \<not> is_delim c) s1)))"

text \<open>\<open>atoi\<close>: white space, a sign, digits; whatever follows is ignored.\<close>

definition isspace :: "char \<Rightarrow> bool" where
  "isspace c = (c \<in> set [CHR '' '', CHR 0x09, CHR 0x0A, CHR 0x0B, CHR 0x0C, CHR 0x0D])"

definition isdigit :: "char \<Rightarrow> bool" where
  "isdigit c = (48 \<le> (of_char c :: nat) \<and> (of_char c :: nat) \<le> 57)"

definition atoi :: "string \<Rightarrow> int" where
  "atoi s =
     (let s1 = dropWhile isspace s;
          neg = (s1 \<noteq> [] \<and> hd s1 = CHR ''-'');
          s2 = (if s1 \<noteq> [] \<and> (hd s1 = CHR ''-'' \<or> hd s1 = CHR ''+'') then tl s1 else s1);
          v = foldl (\<lambda>a c. 10 * a + (int (of_char c) - 48)) 0 (takeWhile isdigit s2)
      in if neg then - v else v)"

text \<open>
  \<open>usbutil_find_by_loc\<close>: the location is copied into a buffer of 64
  characters, split in two tokens, and the last device of the list at that
  bus and address is the one found.
\<close>

definition usbutil_find_by_loc :: "usb_device list \<Rightarrow> string option \<Rightarrow> usb_device option" where
  "usbutil_find_by_loc devs loc =
     (case loc of
        None \<Rightarrow> None
      | Some l \<Rightarrow>
          (case strtok (take 63 l) of
             None \<Rightarrow> None
           | Some (bus_text, rest) \<Rightarrow>
               (case strtok rest of
                  None \<Rightarrow> None
                | Some (dev_text, rest') \<Rightarrow>
                    foldl (\<lambda>found dev.
                             if bus_number dev = atoi bus_text \<and> device_address dev = atoi dev_text
                             then Some dev else found) None devs)))"

definition tolower :: "char \<Rightarrow> char" where
  "tolower c =
     (if 65 \<le> (of_char c :: nat) \<and> (of_char c :: nat) \<le> 90
      then char_of ((of_char c :: nat) + 32) else c)"

definition strcasecmp_eq :: "string \<Rightarrow> string \<Rightarrow> bool" where
  "strcasecmp_eq a b = (map tolower a = map tolower b)"

text \<open>
  \<open>usbutil_find_by_id\<close>: among the devices whose descriptor can be read and
  whose vendor and product match, the last one whose serial number matches
  the requested one without regard to case (any, when none is requested).
\<close>

definition usbutil_find_by_id ::
  "usb_device list \<Rightarrow> int \<Rightarrow> int \<Rightarrow> string option \<Rightarrow> usb_device option" where
  "usbutil_find_by_id devs vendor product requested_serial =
     foldl (\<lambda>found dev.
              if descriptor_rc dev \<noteq> 0 then found
              else if idVendor dev = vendor \<and> idProduct dev = product
                then (case requested_serial of
                        None \<Rightarrow> Some dev
                      | Some want \<Rightarrow>
                          (case serial_number dev of
                             None \<Rightarrow> found
                           | Some got \<Rightarrow> if strcasecmp_eq want got then Some dev else found))
              else found) None devs"

section \<open>Opening, suspending and resuming the HID transport\<close>

definition BSLHID_VID :: int where
  "BSLHID_VID = 0x2047"

definition BSLHID_PID :: int where
  "BSLHID_PID = 0x0200"

text \<open>Constants of usb.h.\<close>

definition USB_CLASS_HID :: int where
  "USB_CLASS_HID = 3"

definition USB_ENDPOINT_TYPE_MASK :: "8 word" where
  "USB_ENDPOINT_TYPE_MASK = 0x03"

definition USB_ENDPOINT_TYPE_BULK :: "8 word" where
  "USB_ENDPOINT_TYPE_BULK = 2"

definition USB_ENDPOINT_DIR_MASK :: "8 word" where
  "USB_ENDPOINT_DIR_MASK = 0x80"

text \<open>The inner loop of \<open>find_interface\<close>, over the endpoints of an interface.\<close>

fun bslhid_scan_endpoints ::
  "bslhid_transport \<Rightarrow> (8 word \<times> 8 word) list \<Rightarrow> bslhid_transport" where
  "bslhid_scan_endpoints tr [] = tr"
| "bslhid_scan_endpoints tr ((attr, ep_addr) # eps) =
     (if attr AND USB_ENDPOINT_TYPE_MASK \<noteq> USB_ENDPOINT_TYPE_BULK
        then bslhid_scan_endpoints tr eps
      else if ep_addr AND USB_ENDPOINT_DIR_MASK \<noteq> 0
        then bslhid_scan_endpoints (tr\<lparr>in_ep := uint ep_addr\<rparr>) eps
      else bslhid_scan_endpoints (tr\<lparr>out_ep := uint ep_addr\<rparr>) eps)"

text \<open>The outer loop, over the interfaces, \<open>i\<close> being the index.\<close>

fun bslhid_find_interface_loop ::
  "bslhid_transport \<Rightarrow> int \<Rightarrow> int \<Rightarrow> usb_interface list \<Rightarrow> bslhid_transport \<times> (error + unit)" where
  "bslhid_find_interface_loop tr cfg i [] = (tr, Inl ConfigurationFailure)"
| "bslhid_find_interface_loop tr cfg i (intf # rest) =
     (if bInterfaceClass intf \<noteq> USB_CLASS_HID
        then bslhid_find_interface_loop tr cfg (i + 1) rest
      else
        let tr1 = bslhid_scan_endpoints (tr\<lparr>in_ep := - 1, out_ep := - 1\<rparr>) (endpoints intf)
        in if in_ep tr1 \<ge> 0 \<and> out_ep tr1 \<ge> 0
             then (tr1\<lparr>cfg_number := cfg, int_number := i\<rparr>, Inr ())
           else bslhid_find_interface_loop tr1 cfg (i + 1) rest)"

definition bslhid_find_interface ::
  "bslhid_transport \<Rightarrow> usb_device \<Rightarrow> bslhid_transport \<times> (error + unit)" where
  "bslhid_find_interface tr dev =
     (if config_rc dev \<noteq> 0 then (tr, Inl ConfigurationFailure)
      else bslhid_find_interface_loop tr (bConfigurationValue dev) 0 (interfaces dev))"

text \<open>
  The part of every open function that is compiled on Linux only:
  \<^verbatim>\<open>if (libusb_kernel_driver_active(h, ino) == 1)
      rc = libusb_detach_kernel_driver(h, ino);\<close>
  whose failure is a warning.
\<close>

definition detach_calls :: "platform \<Rightarrow> (usb_call \<Rightarrow> int) \<Rightarrow> handle \<Rightarrow> int \<Rightarrow> usb_call list" where
  "detach_calls os usb h ino =
     (if os = Linux
      then (if usb (KernelDriverActive h ino) = 1
            then [KernelDriverActive h ino, DetachKernelDriver h ino]
            else [KernelDriverActive h ino])
      else [])"

text \<open>
  \<open>open_device\<close> of bslhid.c. The configuration is set on Windows only.
\<close>

definition bslhid_open_device ::
  "platform \<Rightarrow> (usb_call \<Rightarrow> int) \<Rightarrow> bslhid_transport \<Rightarrow> usb_device
     \<Rightarrow> usb_call list \<times> bslhid_transport \<times> (error + unit)" where
  "bslhid_open_device os usb tr dev =
     (if descriptor_rc dev \<noteq> 0 then ([], tr, Inl ConfigurationFailure)
      else case bslhid_find_interface tr dev of
        (tr1, Inl e) \<Rightarrow> ([], tr1, Inl e)
      | (tr1, Inr u) \<Rightarrow>
          let tr2 = tr1\<lparr>handle := libusb_open dev (handle tr1)\<rparr>;
              h = handle tr2;
              ino = int_number tr2;
              c_open = [Open (bus_number dev) (device_address dev)];
              c_det = detach_calls os usb h ino;
              c_cfg = (if os = Windows then [SetConfiguration h (cfg_number tr2)] else [])
          in if h = NULL then (c_open, tr2, Inl ConfigurationFailure)
             else if os = Windows \<and> usb (SetConfiguration h (cfg_number tr2)) \<noteq> 0
               then (c_open @ c_det @ c_cfg @ [Close h], tr2, Inl ConfigurationFailure)
             else if usb (ClaimInterface h ino) \<noteq> 0
               then (c_open @ c_det @ c_cfg @ [ClaimInterface h ino, Close h], tr2,
                     Inl ConfigurationFailure)
             else (c_open @ c_det @ c_cfg @ [ClaimInterface h ino], tr2, Inr ()))"

text \<open>
  The flush loop of the HID, CDC-ACM and CP210x transports,
  \<^verbatim>\<open>while (libusb_bulk_transfer(h, ep, buf, sizeof(buf), &received, 100) != 0);\<close>
  with the return codes of the reads as a list; \<open>None\<close> when the list ends
  before a read returns 0.
\<close>

fun flush_loop :: "handle \<Rightarrow> int \<Rightarrow> int list \<Rightarrow> usb_call list option" where
  "flush_loop h ep [] = None"
| "flush_loop h ep (rc # rest) =
     (if rc \<noteq> 0
      then (case flush_loop h ep rest of None \<Rightarrow> None | Some cs \<Rightarrow> Some (BulkIn h ep 64 # cs))
      else Some [BulkIn h ep 64])"

definition bslhid_flush :: "platform \<Rightarrow> bslhid_transport \<Rightarrow> int list \<Rightarrow> usb_call list option" where
  "bslhid_flush os tr rcs =
     (if os = MacOS then Some []
      else if handle tr = NULL then Some []
      else flush_loop (handle tr) (in_ep tr) rcs)"

text \<open>
  \<open>bslhid_open\<close>. The instance is zeroed, then the identity is recorded:
  at most 7 characters of the path, or at most 127 of the serial number, the
  other one staying empty. With neither a path nor a serial number the C code
  takes \<open>strlen(NULL)\<close>: \<open>None\<close>. \<open>bslhid_open_found\<close> is the part of the
  function after the device was looked up.
\<close>

definition bslhid_open_found ::
  "platform \<Rightarrow> (usb_call \<Rightarrow> int) \<Rightarrow> bslhid_transport \<Rightarrow> usb_device option \<Rightarrow> int list
     \<Rightarrow> (usb_call list \<times> (error + bslhid_transport)) option" where
  "bslhid_open_found os usb tr dev rcs =
     (case dev of
        None \<Rightarrow> Some ([], Inl DiscoveryFailure)
      | Some d \<Rightarrow>
          (case bslhid_open_device os usb tr d of
             (cs, tr2, Inl e) \<Rightarrow> Some (cs, Inl e)
           | (cs, tr2, Inr u) \<Rightarrow>
               (case bslhid_flush os tr2 rcs of
                  None \<Rightarrow> None
                | Some cs' \<Rightarrow> Some (cs @ cs', Inr tr2))))"

definition bslhid_open ::
  "platform \<Rightarrow> (usb_call \<Rightarrow> int) \<Rightarrow> usb_device list \<Rightarrow> string option \<Rightarrow> string option
     \<Rightarrow> int list \<Rightarrow> (usb_call list \<times> (error + bslhid_transport)) option" where
  "bslhid_open os usb devs dev_path requested_serial rcs =
     (let tr0 = \<lparr>cfg_number = 0, int_number = 0, handle = NULL, in_ep = 0, out_ep = 0,
                 path = [], serial = []\<rparr>
      in case dev_path of
           Some p \<Rightarrow>
             bslhid_open_found os usb (tr0\<lparr>serial := [], path := take 7 p\<rparr>)
               (usbutil_find_by_loc devs dev_path) rcs
         | None \<Rightarrow>
             (case requested_serial of
                None \<Rightarrow> None
              | Some sr \<Rightarrow>
                  bslhid_open_found os usb (tr0\<lparr>path := [], serial := take 127 sr\<rparr>)
                    (usbutil_find_by_id devs BSLHID_VID BSLHID_PID requested_serial) rcs))"

text \<open>\<open>bslhid_resume\<close>: the device is looked up by \<open>tr->path\<close>.\<close>

definition bslhid_resume ::
  "platform \<Rightarrow> (usb_call \<Rightarrow> int) \<Rightarrow> usb_device list \<Rightarrow> bslhid_transport
     \<Rightarrow> usb_call list \<times> bslhid_transport \<times> (error + unit)" where
  "bslhid_resume os usb devs tr =
     (if handle tr \<noteq> NULL then ([], tr, Inr ())
      else case usbutil_find_by_loc devs (Some (path tr)) of
             None \<Rightarrow> ([], tr, Inl DiscoveryFailure)
           | Some d \<Rightarrow> bslhid_open_device os usb tr d)"

section \<open>Receiving: the read buffer of CDC-ACM\<close>

text \<open>
  \<open>struct cdc_acm_transport\<close> with its read buffer of \<open>READ_BUFFER_SIZE\<close> bytes.
\<close>

record cdc_acm_transport =
  cdc_int_number :: int
  cdc_handle :: handle
  cdc_in_ep :: int
  cdc_out_ep :: int
  rbuf_len :: int
  rbuf_ptr :: int
  rbuf :: "byte list"

text \<open>
  A bulk read, \<open>libusb_bulk_transfer(h, ep, buf, length, &received, T)\<close>,
  stores at most \<open>length\<close> bytes: of the bytes the device offers, the first
  \<open>length\<close>. Their number is the count the C code calls \<open>received\<close> or
  \<open>rlen\<close>.
\<close>

definition bulk_read :: "int \<Rightarrow> byte list \<Rightarrow> byte list" where
  "bulk_read len offered = take (nat len) offered"

definition READ_BUFFER_SIZE :: int where
  "READ_BUFFER_SIZE = 1024"

text \<open>
  \<open>usbtr_recv\<close> of cdc_acm.c. When the buffer is used up, one bulk read of
  \<open>sizeof(tr->rbuf)\<close> bytes refills it, answered with \<open>(rc, offered)\<close>; there
  is no loop and no deadline. The result is the calls made, the new instance
  and the bytes copied to the caller.
\<close>

definition cdc_acm_usbtr_recv ::
  "cdc_acm_transport \<Rightarrow> int \<Rightarrow> int \<times> byte list
     \<Rightarrow> usb_call list \<times> cdc_acm_transport \<times> (error + byte list)" where
  "cdc_acm_usbtr_recv tr len xfer =
     (let refill = (rbuf_ptr tr \<ge> rbuf_len tr);
          tr1 = (if refill then tr\<lparr>rbuf_ptr := 0\<rparr> else tr);
          rc = fst xfer;
          stored = bulk_read READ_BUFFER_SIZE (snd xfer);
          cs = (if refill then [BulkIn (cdc_handle tr) (cdc_in_ep tr) READ_BUFFER_SIZE] else [])
      in if refill \<and> rc \<noteq> 0 \<and> rc \<noteq> LIBUSB_ERROR_TIMEOUT then (cs, tr1, Inl TransferFailure)
         else
           let tr2 = (if refill
                      then tr1\<lparr>rbuf := stored @ drop (length stored) (rbuf tr1),
                               rbuf_len := int (length stored)\<rparr>
                      else tr1);
               len' = (if rbuf_ptr tr2 + len > rbuf_len tr2
                       then rbuf_len tr2 - rbuf_ptr tr2 else len)
           in (cs, tr2\<lparr>rbuf_ptr := rbuf_ptr tr2 + len'\<rparr>,
               Inr (take (nat len') (drop (nat (rbuf_ptr tr2)) (rbuf tr2)))))"

text \<open>
  The invariant of the read buffer, cursor \<open>\<le>\<close> valid length \<open>\<le>\<close> capacity, and
  the valid part of the buffer: the bytes the last read stored.
\<close>

definition cdc_inv :: "cdc_acm_transport \<Rightarrow> bool" where
  "cdc_inv tr =
     (0 \<le> rbuf_ptr tr \<and> rbuf_ptr tr \<le> rbuf_len tr \<and> rbuf_len tr \<le> READ_BUFFER_SIZE
      \<and> int (length (rbuf tr)) = READ_BUFFER_SIZE)"


section \<open>Opening the serial bridges\<close>

text \<open>
  A step of a bring-up sequence gives the calls it made and its result;
  \<open>and_then\<close> runs the second step when the first succeeded, as the C code
  does with early returns and with \<open>||\<close>.
\<close>

definition and_then ::
  "usb_call list \<times> (error + unit) \<Rightarrow> usb_call list \<times> (error + unit)
     \<Rightarrow> usb_call list \<times> (error + unit)" where
  "and_then a b = (case snd a of Inl e \<Rightarrow> a | Inr u \<Rightarrow> (fst a @ fst b, snd b))"

text \<open>
  C's integer division truncates towards zero, and traps when the divisor is
  0: the baud rate is then reported as \<open>Crash\<close>.
\<close>

definition c_div :: "int \<Rightarrow> int \<Rightarrow> int" where
  "c_div a b = sgn a * sgn b * (\<bar>a\<bar> div \<bar>b\<bar>)"

subsection \<open>CP210x\<close>

record cp210x_transport =
  cp_handle :: handle
  cp_int_number :: int

definition CP210X_CLOCK :: int where
  "CP210X_CLOCK = 3500000"

definition V1_INTERFACE_CLASS :: int where
  "V1_INTERFACE_CLASS = 255"

definition V1_IN_EP :: int where
  "V1_IN_EP = 0x81"

definition CP210X_IFC_ENABLE :: "8 word" where
  "CP210X_IFC_ENABLE = 0x00"

definition CP210X_SET_BAUDDIV :: "8 word" where
  "CP210X_SET_BAUDDIV = 0x01"

text \<open>
  One control transfer without payload of the CP210x \<open>configure_port\<close>, which
  fails when the return code is negative.
\<close>

definition cp210x_cfg ::
  "(usb_call \<Rightarrow> int) \<Rightarrow> handle \<Rightarrow> 8 word \<Rightarrow> 16 word \<Rightarrow> usb_call list \<times> (error + unit)" where
  "cp210x_cfg usb h request val =
     (let c = Control h CP210x_REQTYPE_HOST_TO_DEVICE request val 0 []
      in if usb c < 0 then ([c], Inl ControlFailure) else ([c], Inr ()))"

definition cp210x_configure_port ::
  "(usb_call \<Rightarrow> int) \<Rightarrow> handle \<Rightarrow> int \<Rightarrow> usb_call list \<times> (error + unit)" where
  "cp210x_configure_port usb h baud_rate =
     and_then (cp210x_cfg usb h CP210X_IFC_ENABLE 0x1)
       (and_then
          (if baud_rate = 0 then ([], Inl Crash)
           else cp210x_cfg usb h CP210X_SET_BAUDDIV (of_int (c_div CP210X_CLOCK baud_rate)))
          (cp210x_cfg usb h CP210X_SET_MHS 0x303))"

text \<open>\<open>open_interface\<close> of the CP210x transport.\<close>

definition cp210x_open_interface ::
  "platform \<Rightarrow> (usb_call \<Rightarrow> int) \<Rightarrow> cp210x_transport \<Rightarrow> usb_device \<Rightarrow> int \<Rightarrow> int
     \<Rightarrow> usb_call list \<times> cp210x_transport \<times> (error + unit)" where
  "cp210x_open_interface os usb tr dev ino baud_rate =
     (if descriptor_rc dev \<noteq> 0 then ([], tr, Inl ConfigurationFailure)
      else
        let tr1 = tr\<lparr>cp_int_number := ino\<rparr>;
            tr2 = tr1\<lparr>cp_handle := libusb_open dev (cp_handle tr1)\<rparr>;
            h = cp_handle tr2;
            c_open = [Open (bus_number dev) (device_address dev)];
            c_det = detach_calls os usb h ino;
            c_cfg = (if os = Windows then [SetConfiguration h 1] else [])
        in if h = NULL then (c_open, tr2, Inl ConfigurationFailure)
           else if os = Windows \<and> usb (SetConfiguration h 1) \<noteq> 0
             then (c_open @ c_det @ c_cfg @ [Close h], tr2, Inl ConfigurationFailure)
           else if usb (ClaimInterface h ino) \<noteq> 0
             then (c_open @ c_det @ c_cfg @ [ClaimInterface h ino, Close h], tr2,
                   Inl ConfigurationFailure)
           else
             (case cp210x_configure_port usb h baud_rate of
                (cs, Inl e) \<Rightarrow>
                  (c_open @ c_det @ c_cfg @ [ClaimInterface h ino] @ cs @ [Close h], tr2, Inl e)
              | (cs, Inr u) \<Rightarrow>
                  (c_open @ c_det @ c_cfg @ [ClaimInterface h ino] @ cs, tr2, Inr ())))"

text \<open>
  \<open>open_device\<close> of the CP210x transport: the first interface of class 255
  that \<open>open_interface\<close> opens.
\<close>

fun cp210x_open_device_loop ::
  "platform \<Rightarrow> (usb_call \<Rightarrow> int) \<Rightarrow> cp210x_transport \<Rightarrow> usb_device \<Rightarrow> int
     \<Rightarrow> usb_interface list \<Rightarrow> usb_call list \<times> cp210x_transport \<times> (error + unit)" where
  "cp210x_open_device_loop os usb tr dev baud_rate [] = ([], tr, Inl ConfigurationFailure)"
| "cp210x_open_device_loop os usb tr dev baud_rate (intf # rest) =
     (if bInterfaceClass intf = V1_INTERFACE_CLASS
      then (case cp210x_open_interface os usb tr dev (bInterfaceNumber intf) baud_rate of
              (cs, tr', Inr u) \<Rightarrow> (cs, tr', Inr ())
            | (cs, tr', Inl e) \<Rightarrow>
                (case cp210x_open_device_loop os usb tr' dev baud_rate rest of
                   (cs', tr'', res) \<Rightarrow> (cs @ cs', tr'', res)))
      else cp210x_open_device_loop os usb tr dev baud_rate rest)"

definition cp210x_open_device ::
  "platform \<Rightarrow> (usb_call \<Rightarrow> int) \<Rightarrow> cp210x_transport \<Rightarrow> usb_device \<Rightarrow> int
     \<Rightarrow> usb_call list \<times> cp210x_transport \<times> (error + unit)" where
  "cp210x_open_device os usb tr dev baud_rate =
     (if config_rc dev \<noteq> 0 then ([], tr, Inl ConfigurationFailure)
      else cp210x_open_device_loop os usb tr dev baud_rate (interfaces dev))"

text \<open>
  \<open>cp210x_open\<close>. Its parameters are \<open>product\<close> and \<open>vendor\<close>, in this
  order, and it passes them on in this order. A failure returns NULL: the
  calls made and the error. After a success the input is flushed.
\<close>

definition cp210x_open ::
  "platform \<Rightarrow> (usb_call \<Rightarrow> int) \<Rightarrow> usb_device list \<Rightarrow> string option \<Rightarrow> string option
     \<Rightarrow> int \<Rightarrow> int \<Rightarrow> int \<Rightarrow> int list
     \<Rightarrow> (usb_call list \<times> (error + cp210x_transport)) option" where
  "cp210x_open os usb devs devpath requested_serial baud_rate product vendor rcs =
     (let tr0 = \<lparr>cp_handle = NULL, cp_int_number = 0\<rparr>;
          dev = (case devpath of
                   Some p \<Rightarrow> usbutil_find_by_loc devs devpath
                 | None \<Rightarrow> usbutil_find_by_id devs product vendor requested_serial)
      in case dev of
           None \<Rightarrow> Some ([], Inl DiscoveryFailure)
         | Some d \<Rightarrow>
             (case cp210x_open_device os usb tr0 d baud_rate of
                (cs, tr, Inl e) \<Rightarrow> Some (cs, Inl e)
              | (cs, tr, Inr u) \<Rightarrow>
                  (case flush_loop (cp_handle tr) V1_IN_EP rcs of
                     None \<Rightarrow> None
                   | Some cs' \<Rightarrow> Some (cs @ cs', Inr tr))))"

text \<open>\<open>usbtr_destroy\<close> of the CP210x transport.\<close>

definition cp210x_usbtr_destroy :: "cp210x_transport \<Rightarrow> usb_call list" where
  "cp210x_usbtr_destroy tr =
     [ReleaseInterface (cp_handle tr) (cp_int_number tr), Close (cp_handle tr)]"

subsection \<open>FTDI\<close>

definition USB_INTERFACE :: int where
  "USB_INTERFACE = 0"

definition USB_CONFIG :: int where
  "USB_CONFIG = 1"

definition FTDI_CLOCK :: int where
  "FTDI_CLOCK = 3000000"

definition FTDI_SIO_SET_FLOW_CTRL :: "8 word" where
  "FTDI_SIO_SET_FLOW_CTRL = 2"

definition FTDI_SIO_SET_BAUD_RATE :: "8 word" where
  "FTDI_SIO_SET_BAUD_RATE = 3"

definition FTDI_SIO_SET_DATA :: "8 word" where
  "FTDI_SIO_SET_DATA = 4"

definition FTDI_SIO_SET_LATENCY_TIMER :: "8 word" where
  "FTDI_SIO_SET_LATENCY_TIMER = 9"

definition FTDI_SIO_RESET_SIO :: "32 word" where
  "FTDI_SIO_RESET_SIO = 0"

definition FTDI_SIO_RESET_PURGE_TX :: "32 word" where
  "FTDI_SIO_RESET_PURGE_TX = 2"

definition configure_ftdi ::
  "(usb_call \<Rightarrow> int) \<Rightarrow> handle \<Rightarrow> int \<Rightarrow> usb_call list \<times> (error + unit)" where
  "configure_ftdi usb h baud_rate =
     and_then (do_cfg usb h FTDI_SIO_RESET FTDI_SIO_RESET_SIO)
    (and_then (do_cfg usb h FTDI_SIO_SET_DATA 8)
    (and_then (do_cfg usb h FTDI_SIO_SET_FLOW_CTRL 0)
    (and_then (do_cfg usb h FTDI_SIO_MODEM_CTRL 0x303)
    (and_then (if baud_rate = 0 then ([], Inl Crash)
               else do_cfg usb h FTDI_SIO_SET_BAUD_RATE (of_int (c_div FTDI_CLOCK baud_rate)))
    (and_then (do_cfg usb h FTDI_SIO_SET_LATENCY_TIMER 50)
    (and_then (do_cfg usb h FTDI_SIO_RESET FTDI_SIO_RESET_PURGE_TX)
              (do_cfg usb h FTDI_SIO_RESET FTDI_SIO_RESET_PURGE_RX)))))))"

text \<open>\<open>open_device\<close> of ftdi.c.\<close>

definition ftdi_open_device ::
  "platform \<Rightarrow> (usb_call \<Rightarrow> int) \<Rightarrow> ftdi_transport \<Rightarrow> usb_device \<Rightarrow> int
     \<Rightarrow> usb_call list \<times> ftdi_transport \<times> (error + unit)" where
  "ftdi_open_device os usb tr dev baud_rate =
     (if descriptor_rc dev \<noteq> 0 then ([], tr, Inl ConfigurationFailure)
      else
        let tr2 = tr\<lparr>ftdi_handle := libusb_open dev (ftdi_handle tr)\<rparr>;
            h = ftdi_handle tr2;
            c_open = [Open (bus_number dev) (device_address dev)];
            c_det = detach_calls os usb h USB_INTERFACE;
            c_cfg = (if os = Windows then [SetConfiguration h USB_CONFIG] else [])
        in if h = NULL then (c_open, tr2, Inl ConfigurationFailure)
           else if os = Windows \<and> usb (SetConfiguration h USB_CONFIG) \<noteq> 0
             then (c_open @ c_det @ c_cfg @ [Close h], tr2, Inl ConfigurationFailure)
           else if usb (ClaimInterface h USB_INTERFACE) \<noteq> 0
             then (c_open @ c_det @ c_cfg @ [ClaimInterface h USB_INTERFACE, Close h], tr2,
                   Inl ConfigurationFailure)
           else
             (case configure_ftdi usb h baud_rate of
                (cs, Inl e) \<Rightarrow>
                  (c_open @ c_det @ c_cfg @ [ClaimInterface h USB_INTERFACE] @ cs @ [Close h],
                   tr2, Inl e)
              | (cs, Inr u) \<Rightarrow>
                  (c_open @ c_det @ c_cfg @ [ClaimInterface h USB_INTERFACE] @ cs, tr2, Inr ())))"

definition ftdi_open ::
  "platform \<Rightarrow> (usb_call \<Rightarrow> int) \<Rightarrow> usb_device list \<Rightarrow> string option \<Rightarrow> string option
     \<Rightarrow> int \<Rightarrow> int \<Rightarrow> int \<Rightarrow> usb_call list \<times> (error + ftdi_transport)" where
  "ftdi_open os usb devs devpath requested_serial vendor product baud_rate =
     (let tr0 = \<lparr>ftdi_handle = NULL\<rparr>;
          dev = (case devpath of
                   Some p \<Rightarrow> usbutil_find_by_loc devs devpath
                 | None \<Rightarrow> usbutil_find_by_id devs vendor product requested_serial)
      in case dev of
           None \<Rightarrow> ([], Inl DiscoveryFailure)
         | Some d \<Rightarrow>
             (case ftdi_open_device os usb tr0 d baud_rate of
                (cs, tr, Inl e) \<Rightarrow> (cs, Inl e)
              | (cs, tr, Inr u) \<Rightarrow> (cs, Inr tr)))"

subsection \<open>CDC-ACM\<close>

definition CDC_INTERFACE_CLASS :: int where
  "CDC_INTERFACE_CLASS = 10"

definition CDC_REQTYPE_HOST_TO_DEVICE :: "8 word" where
  "CDC_REQTYPE_HOST_TO_DEVICE = 0x21"

definition CDC_SET_CONTROL :: "8 word" where
  "CDC_SET_CONTROL = 0x22"

definition CDC_SET_LINE_CODING :: "8 word" where
  "CDC_SET_LINE_CODING = 0x20"

text \<open>\<open>find_interface\<close> of cdc_acm.c, with its two loops.\<close>

fun cdc_scan_endpoints ::
  "cdc_acm_transport \<Rightarrow> (8 word \<times> 8 word) list \<Rightarrow> cdc_acm_transport" where
  "cdc_scan_endpoints tr [] = tr"
| "cdc_scan_endpoints tr ((attr, ep_addr) # eps) =
     (if attr AND USB_ENDPOINT_TYPE_MASK \<noteq> USB_ENDPOINT_TYPE_BULK
        then cdc_scan_endpoints tr eps
      else if ep_addr AND USB_ENDPOINT_DIR_MASK \<noteq> 0
        then cdc_scan_endpoints (tr\<lparr>cdc_in_ep := uint ep_addr\<rparr>) eps
      else cdc_scan_endpoints (tr\<lparr>cdc_out_ep := uint ep_addr\<rparr>) eps)"

fun cdc_find_interface_loop ::
  "cdc_acm_transport \<Rightarrow> int \<Rightarrow> usb_interface list \<Rightarrow> cdc_acm_transport \<times> (error + unit)" where
  "cdc_find_interface_loop tr i [] = (tr, Inl ConfigurationFailure)"
| "cdc_find_interface_loop tr i (intf # rest) =
     (if bInterfaceClass intf \<noteq> CDC_INTERFACE_CLASS
        then cdc_find_interface_loop tr (i + 1) rest
      else
        let tr1 = cdc_scan_endpoints (tr\<lparr>cdc_in_ep := - 1, cdc_out_ep := - 1\<rparr>) (endpoints intf)
        in if cdc_in_ep tr1 \<ge> 0 \<and> cdc_out_ep tr1 \<ge> 0
             then (tr1\<lparr>cdc_int_number := i\<rparr>, Inr ())
           else cdc_find_interface_loop tr1 (i + 1) rest)"

definition cdc_find_interface ::
  "cdc_acm_transport \<Rightarrow> usb_device \<Rightarrow> cdc_acm_transport \<times> (error + unit)" where
  "cdc_find_interface tr dev =
     (if config_rc dev \<noteq> 0 then (tr, Inl ConfigurationFailure)
      else cdc_find_interface_loop tr 0 (interfaces dev))"

text \<open>\<open>open_interface\<close> of cdc_acm.c.\<close>

definition cdc_open_interface ::
  "platform \<Rightarrow> (usb_call \<Rightarrow> int) \<Rightarrow> cdc_acm_transport \<Rightarrow> usb_device
     \<Rightarrow> usb_call list \<times> cdc_acm_transport \<times> (error + unit)" where
  "cdc_open_interface os usb tr dev =
     (let tr2 = tr\<lparr>cdc_handle := libusb_open dev (cdc_handle tr)\<rparr>;
          h = cdc_handle tr2;
          ino = cdc_int_number tr2;
          c_open = [Open (bus_number dev) (device_address dev)];
          c_det = detach_calls os usb h ino
      in if h = NULL then (c_open, tr2, Inl ConfigurationFailure)
         else if usb (ClaimInterface h ino) \<noteq> 0
           then (c_open @ c_det @ [ClaimInterface h ino, Close h], tr2, Inl ConfigurationFailure)
         else (c_open @ c_det @ [ClaimInterface h ino], tr2, Inr ()))"

text \<open>
  \<open>configure_port\<close> of cdc_acm.c: the 7-byte line coding, then the control
  lines. Each transfer is a failure when its return code is not 0.
\<close>

definition line_coding :: "32 word \<Rightarrow> byte list" where
  "line_coding baud_rate =
     [ucast (baud_rate AND 0xff),
      ucast (drop_bit 8 baud_rate AND 0xff),
      ucast (drop_bit 16 baud_rate AND 0xff),
      ucast (drop_bit 24 baud_rate AND 0xff),
      0, 0, 8]"

definition cdc_cfg ::
  "(usb_call \<Rightarrow> int) \<Rightarrow> handle \<Rightarrow> 8 word \<Rightarrow> byte list \<Rightarrow> usb_call list \<times> (error + unit)" where
  "cdc_cfg usb h request payload =
     (let c = Control h CDC_REQTYPE_HOST_TO_DEVICE request 0 0 payload
      in if usb c \<noteq> 0 then ([c], Inl ControlFailure) else ([c], Inr ()))"

definition cdc_configure_port ::
  "(usb_call \<Rightarrow> int) \<Rightarrow> cdc_acm_transport \<Rightarrow> 32 word \<Rightarrow> usb_call list \<times> (error + unit)" where
  "cdc_configure_port usb tr baud_rate =
     and_then (cdc_cfg usb (cdc_handle tr) CDC_SET_LINE_CODING (line_coding baud_rate))
              (cdc_cfg usb (cdc_handle tr) CDC_SET_CONTROL [])"

definition cdc_usbtr_destroy :: "cdc_acm_transport \<Rightarrow> usb_call list" where
  "cdc_usbtr_destroy tr =
     [ReleaseInterface (cdc_handle tr) (cdc_int_number tr), Close (cdc_handle tr)]"

definition cdc_usbtr_flush ::
  "cdc_acm_transport \<Rightarrow> int list \<Rightarrow> (usb_call list \<times> cdc_acm_transport) option" where
  "cdc_usbtr_flush tr rcs =
     (case flush_loop (cdc_handle tr) (cdc_in_ep tr) rcs of
        None \<Rightarrow> None
      | Some cs \<Rightarrow> Some (cs, tr\<lparr>rbuf_len := 0, rbuf_ptr := 0\<rparr>))"

text \<open>\<open>cdc_acm_open\<close>; \<open>cdc_acm_open_found\<close> is its part after the device was found.\<close>

definition cdc_acm_open_found ::
  "platform \<Rightarrow> (usb_call \<Rightarrow> int) \<Rightarrow> cdc_acm_transport \<Rightarrow> usb_device \<Rightarrow> 32 word \<Rightarrow> int list
     \<Rightarrow> (usb_call list \<times> (error + cdc_acm_transport)) option" where
  "cdc_acm_open_found os usb tr0 d baud_rate rcs =
     (case cdc_find_interface tr0 d of
        (tr1, Inl e) \<Rightarrow> Some ([], Inl e)
      | (tr1, Inr u) \<Rightarrow>
          (case cdc_open_interface os usb tr1 d of
             (cs, tr2, Inl e) \<Rightarrow> Some (cs, Inl e)
           | (cs, tr2, Inr u) \<Rightarrow>
               (case cdc_configure_port usb tr2 baud_rate of
                  (cs', Inl e) \<Rightarrow> Some (cs @ cs' @ cdc_usbtr_destroy tr2, Inl e)
                | (cs', Inr u) \<Rightarrow>
                    (case cdc_usbtr_flush tr2 rcs of
                       None \<Rightarrow> None
                     | Some (cs'', tr3) \<Rightarrow> Some (cs @ cs' @ cs'', Inr tr3)))))"

definition cdc_acm_open ::
  "platform \<Rightarrow> (usb_call \<Rightarrow> int) \<Rightarrow> usb_device list \<Rightarrow> string option \<Rightarrow> string option
     \<Rightarrow> 32 word \<Rightarrow> int \<Rightarrow> int \<Rightarrow> int list
     \<Rightarrow> (usb_call list \<times> (error + cdc_acm_transport)) option" where
  "cdc_acm_open os usb devs devpath requested_serial baud_rate vendor product rcs =
     (let tr0 = \<lparr>cdc_int_number = 0, cdc_handle = NULL, cdc_in_ep = 0, cdc_out_ep = 0,
                 rbuf_len = 0, rbuf_ptr = 0, rbuf = replicate 1024 0\<rparr>;
          dev = (case devpath of
                   Some p \<Rightarrow> usbutil_find_by_loc devs devpath
                 | None \<Rightarrow> usbutil_find_by_id devs vendor product requested_serial)
      in case dev of
           None \<Rightarrow> Some ([], Inl DiscoveryFailure)
         | Some d \<Rightarrow> cdc_acm_open_found os usb tr0 d baud_rate rcs)"

subsection \<open>The TI3410 port\<close>

record ti3410_transport =
  ti_handle :: handle

text \<open>\<open>USB_TYPE_VENDOR | USB_RECIP_DEVICE\<close>, of usb.h.\<close>

definition TI_REQTYPE :: "8 word" where
  "TI_REQTYPE = 0x40 OR 0x00"

definition TI_UART1_PORT :: "16 word" where
  "TI_UART1_PORT = 0x03"

definition TI_RAM_PORT :: "16 word" where
  "TI_RAM_PORT = 0x05"

definition TI_SET_CONFIG :: "8 word" where
  "TI_SET_CONFIG = 0x05"

definition TI_OPEN_PORT :: "8 word" where
  "TI_OPEN_PORT = 0x06"

definition TI_CLOSE_PORT :: "8 word" where
  "TI_CLOSE_PORT = 0x07"

definition TI_START_PORT :: "8 word" where
  "TI_START_PORT = 0x08"

definition TI_PURGE_PORT :: "8 word" where
  "TI_PURGE_PORT = 0x0B"

definition TI_WRITE_DATA :: "8 word" where
  "TI_WRITE_DATA = 0x80"

definition TI_PURGE_OUTPUT :: "16 word" where
  "TI_PURGE_OUTPUT = 0x00"

definition TI_PURGE_INPUT :: "16 word" where
  "TI_PURGE_INPUT = 0x80"

definition USB_FET_IN_EP :: int where
  "USB_FET_IN_EP = 0x81"

definition USB_FET_OUT_EP :: int where
  "USB_FET_OUT_EP = 0x01"

definition USB_FET_INT_EP :: int where
  "USB_FET_INT_EP = 0x83"

text \<open>
  One control transfer of ti3410.c: every one of them is a failure when its
  return code is not 0.
\<close>

definition ti_ctrl ::
  "(usb_call \<Rightarrow> int) \<Rightarrow> handle \<Rightarrow> 8 word \<Rightarrow> 16 word \<Rightarrow> 16 word \<Rightarrow> byte list
     \<Rightarrow> usb_call list \<times> (error + unit)" where
  "ti_ctrl usb h request val idx payload =
     (let c = Control h TI_REQTYPE request val idx payload
      in if usb c \<noteq> 0 then ([c], Inl ControlFailure) else ([c], Inr ()))"

definition tios_data :: "byte list" where
  "tios_data = [0x00, 0x02, 0x60, 0x00, 0x03, 0x00, 0x00, 0x00, 0x00, 0x00]"

definition set_termios ::
  "(usb_call \<Rightarrow> int) \<Rightarrow> ti3410_transport \<Rightarrow> usb_call list \<times> (error + unit)" where
  "set_termios usb tr = ti_ctrl usb (ti_handle tr) TI_SET_CONFIG 0 TI_UART1_PORT tios_data"

definition wb_data :: "byte list" where
  "wb_data = [0x30, 0x01, 1, 0x00, 0x00, 0xff, 0xa4, 0x04 OR 0x20 OR 0x10, 0x20 OR 0x10]"

definition set_mcr ::
  "(usb_call \<Rightarrow> int) \<Rightarrow> ti3410_transport \<Rightarrow> usb_call list \<times> (error + unit)" where
  "set_mcr usb tr = ti_ctrl usb (ti_handle tr) TI_WRITE_DATA 0 TI_RAM_PORT wb_data"

definition do_open_start ::
  "(usb_call \<Rightarrow> int) \<Rightarrow> ti3410_transport \<Rightarrow> usb_call list \<times> (error + unit)" where
  "do_open_start usb tr =
     and_then (set_termios usb tr)
    (and_then (set_mcr usb tr)
    (and_then (ti_ctrl usb (ti_handle tr) TI_OPEN_PORT (0x01 OR 0x80 OR push_bit 2 2)
                 TI_UART1_PORT [])
              (ti_ctrl usb (ti_handle tr) TI_START_PORT 0 TI_UART1_PORT [])))"

text \<open>\<open>interrupt_flush\<close>: one interrupt read, whose result nobody looks at.\<close>

definition interrupt_flush :: "ti3410_transport \<Rightarrow> usb_call list \<times> (error + unit)" where
  "interrupt_flush tr = ([InterruptIn (ti_handle tr) USB_FET_INT_EP 2], Inr ())"

definition clear_halts ::
  "(usb_call \<Rightarrow> int) \<Rightarrow> ti3410_transport \<Rightarrow> usb_call list \<times> (error + unit)" where
  "clear_halts usb tr =
     (if usb (ClearHalt (ti_handle tr) USB_FET_IN_EP) \<noteq> 0
        then ([ClearHalt (ti_handle tr) USB_FET_IN_EP], Inl ControlFailure)
      else if usb (ClearHalt (ti_handle tr) USB_FET_OUT_EP) \<noteq> 0
        then ([ClearHalt (ti_handle tr) USB_FET_IN_EP, ClearHalt (ti_handle tr) USB_FET_OUT_EP],
              Inl ControlFailure)
      else ([ClearHalt (ti_handle tr) USB_FET_IN_EP, ClearHalt (ti_handle tr) USB_FET_OUT_EP],
            Inr ()))"

definition setup_port ::
  "(usb_call \<Rightarrow> int) \<Rightarrow> ti3410_transport \<Rightarrow> usb_call list \<times> (error + unit)" where
  "setup_port usb tr =
     and_then (interrupt_flush tr)
    (and_then (do_open_start usb tr)
    (and_then (ti_ctrl usb (ti_handle tr) TI_PURGE_PORT TI_PURGE_INPUT TI_UART1_PORT [])
    (and_then (interrupt_flush tr)
    (and_then (interrupt_flush tr)
    (and_then (ti_ctrl usb (ti_handle tr) TI_PURGE_PORT TI_PURGE_OUTPUT TI_UART1_PORT [])
    (and_then (interrupt_flush tr)
    (and_then (clear_halts usb tr)
              (do_open_start usb tr))))))))"

definition teardown_port :: "ti3410_transport \<Rightarrow> usb_call list" where
  "teardown_port tr = [Control (ti_handle tr) TI_REQTYPE TI_CLOSE_PORT 0 TI_UART1_PORT []]"

text \<open>
  The last step of \<open>ti3410_open\<close>, once \<open>open_device\<close> has opened the device
  and claimed its interface:
  \<^verbatim>\<open>if (setup_port(tr) < 0) {
      teardown_port(tr); libusb_close(tr->handle); free(tr); return NULL; }\<close>
\<close>

definition ti3410_open_setup ::
  "(usb_call \<Rightarrow> int) \<Rightarrow> ti3410_transport \<Rightarrow> usb_call list \<times> (error + ti3410_transport)" where
  "ti3410_open_setup usb tr =
     (case setup_port usb tr of
        (cs, Inl e) \<Rightarrow> (cs @ teardown_port tr @ [Close (ti_handle tr)], Inl e)
      | (cs, Inr u) \<Rightarrow> (cs, Inr tr))"

text \<open>
  A device on which every control transfer succeeds: the return code of
  \<open>libusb_control_transfer\<close> is then the number of bytes transferred, the
  whole payload. Every other call returns 0.
\<close>

fun full_transfer :: "usb_call \<Rightarrow> int" where
  "full_transfer (Control h rt rq v i payload) = int (length payload)"
| "full_transfer c = 0"

text \<open>A device on which every control transfer fails, with \<open>LIBUSB_ERROR_IO\<close>.\<close>

fun no_control :: "usb_call \<Rightarrow> int" where
  "no_control (Control h rt rq v i payload) = - 1"
| "no_control c = 0"

text \<open>
  The interfaces that a list of calls leaves claimed: those a call of the
  list claims with success and no later call of the list releases.
\<close>

fun unreleased_interfaces :: "(usb_call \<Rightarrow> int) \<Rightarrow> usb_call list \<Rightarrow> (handle \<times> int) list" where
  "unreleased_interfaces usb [] = []"
| "unreleased_interfaces usb (ClaimInterface h i # cs) =
     (if usb (ClaimInterface h i) = 0 \<and> ReleaseInterface h i \<notin> set cs
      then (h, i) # unreleased_interfaces usb cs
      else unreleased_interfaces usb cs)"
| "unreleased_interfaces usb (c # cs) = unreleased_interfaces usb cs"

section \<open>Receiving with a deadline: CP210x, FTDI and the TI3410\<close>

text \<open>
  These three transports read in a loop with a deadline:
  \<^verbatim>\<open>time_t deadline = time(NULL) + TIMEOUT_S;
  while (time(NULL) < deadline) { rc = libusb_bulk_transfer(...); ... }\<close>
  Each turn of the loop reads the clock and, when the deadline has not come,
  makes one bulk read. A turn is \<open>(now, rc, offered)\<close>: the clock, and the
  answer of the device to the read, its return code and the bytes it offers.
  The loop gives \<open>None\<close> when the list of turns ends before the loop does.
\<close>

type_synonym turn = "int \<times> int \<times> byte list"

text \<open>
  \<open>usbtr_recv\<close> of the CP210x transport: the read is into \<open>databuf\<close>, for
  \<open>max_len\<close> bytes, and a read that returns 0 ends the loop.
\<close>

fun cp210x_recv_loop ::
  "handle \<Rightarrow> int \<Rightarrow> int \<Rightarrow> turn list \<Rightarrow> (usb_call list \<times> (error + byte list)) option" where
  "cp210x_recv_loop h max_len deadline [] = None"
| "cp210x_recv_loop h max_len deadline ((now, rc, offered) # rest) =
     (if now < deadline then
        (if rc \<noteq> 0 \<and> rc \<noteq> LIBUSB_ERROR_TIMEOUT
           then Some ([BulkIn h V1_IN_EP max_len], Inl TransferFailure)
         else if rc = 0
           then Some ([BulkIn h V1_IN_EP max_len], Inr (bulk_read max_len offered))
         else case cp210x_recv_loop h max_len deadline rest of
                None \<Rightarrow> None
              | Some (cs, res) \<Rightarrow> Some (BulkIn h V1_IN_EP max_len # cs, res))
      else Some ([], Inl ReadTimeout))"

definition cp210x_usbtr_recv ::
  "cp210x_transport \<Rightarrow> int \<Rightarrow> int \<Rightarrow> turn list
     \<Rightarrow> (usb_call list \<times> (error + byte list)) option" where
  "cp210x_usbtr_recv tr max_len t0 turns = cp210x_recv_loop (cp_handle tr) max_len (t0 + 30) turns"










section \<open>The TI3410 firmware image (ti3410.c)\<close>

definition TI_FIRMWARE_BUF_SIZE :: nat where
  "TI_FIRMWARE_BUF_SIZE = 16284"

text \<open>
  \<open>struct firmware\<close>: the buffer \<open>buf\<close> of \<open>TI_FIRMWARE_BUF_SIZE\<close> bytes and the
  \<open>unsigned int size\<close>. A chunk of the decoder, \<open>struct binfile_chunk\<close>, has
  its address and its data; \<open>len\<close> is the length of the data.
\<close>

record firmware =
  fw_buf :: "byte list"
  fw_size :: "32 word"

record binfile_chunk =
  ch_addr :: "32 word"
  ch_data :: "byte list"

text \<open>
  \<open>do_extract\<close>, the callback that takes one chunk. \<open>f->size + ch->len\<close> is
  unsigned 32-bit arithmetic. \<open>memcpy(f->buf + f->size, ch->data, ch->len)\<close>
  replaces the bytes of the buffer from offset \<open>size\<close> on.
\<close>

definition do_extract :: "firmware \<Rightarrow> binfile_chunk \<Rightarrow> error + firmware" where
  "do_extract f ch =
     (if fw_size f \<noteq> ch_addr ch then Inl FirmwareGap
      else if unat (fw_size f + of_nat (length (ch_data ch))) > TI_FIRMWARE_BUF_SIZE
        then Inl FirmwareTooLarge
      else Inr (f\<lparr>fw_buf := take (unat (fw_size f)) (fw_buf f) @ ch_data ch
                              @ drop (unat (fw_size f) + length (ch_data ch)) (fw_buf f),
                   fw_size := fw_size f + of_nat (length (ch_data ch))\<rparr>))"

text \<open>
  Modelled from the spec: \<open>ihex_extract\<close> is the Intel-HEX decoder, in ihex.c,
  which is not among the sources. It hands the chunks of the file to the
  callback in order, and a chunk the callback refuses ends the decoding with
  that failure, before any further processing.
\<close>

fun ihex_extract :: "firmware \<Rightarrow> binfile_chunk list \<Rightarrow> error + firmware" where
  "ihex_extract f [] = Inr f"
| "ihex_extract f (ch # chs) =
     (case do_extract f ch of Inl e \<Rightarrow> Inl e | Inr f' \<Rightarrow> ihex_extract f' chs)"

text \<open>
  \<open>load_firmware\<close>, for a firmware file that was found and is Intel-HEX, with
  the chunks the decoder reads from it: \<open>memset(f, 0, sizeof(*f))\<close>, then the
  decoding.
\<close>

definition load_firmware :: "binfile_chunk list \<Rightarrow> error + firmware" where
  "load_firmware chunks =
     ihex_extract \<lparr>fw_buf = replicate TI_FIRMWARE_BUF_SIZE 0, fw_size = 0\<rparr> chunks"

text \<open>The image: the first \<open>size\<close> bytes of the buffer, which \<open>do_download\<close> sends.\<close>

definition fw_image :: "firmware \<Rightarrow> byte list" where
  "fw_image f = take (unat (fw_size f)) (fw_buf f)"

text \<open>
  \<open>prepare_firmware\<close>. Its loop
  \<^verbatim>\<open>for (i = 3; i < f->size; i++) cksum += f->buf[i];\<close>
  adds in a \<open>uint8_t\<close>; \<open>real_size\<close> is a \<open>uint16_t\<close>.
\<close>

function cksum_loop :: "byte list \<Rightarrow> nat \<Rightarrow> nat \<Rightarrow> byte \<Rightarrow> byte" where
  "cksum_loop b i n cksum = (if i < n then cksum_loop b (Suc i) n (cksum + b ! i) else cksum)"
  by pat_completeness auto
termination
  by (relation "measure (\<lambda>(b, i, n, cksum). n - i)") auto

definition prepare_firmware :: "firmware \<Rightarrow> firmware" where
  "prepare_firmware f =
     (let real_size = (ucast (fw_size f - 3) :: 16 word);
          cksum = cksum_loop (fw_buf f) 3 (unat (fw_size f)) 0
      in f\<lparr>fw_buf := (fw_buf f)[0 := ucast (real_size AND 0xff),
                                 1 := ucast (drop_bit 8 real_size),
                                 2 := cksum]\<rparr>)"

text \<open>
  A chunk list is contiguous from \<open>a\<close> when its first chunk starts at \<open>a\<close> and
  every chunk starts where the one before it ends.
\<close>

fun contiguous_from :: "nat \<Rightarrow> binfile_chunk list \<Rightarrow> bool" where
  "contiguous_from a [] = True"
| "contiguous_from a (ch # chs) =
     (unat (ch_addr ch) = a \<and> contiguous_from (a + length (ch_data ch)) chs)"

section \<open>Theorems\<close>

subsection \<open>HID framing\<close>

text \<open>
  The frame the code builds in \<open>outbuf\<close> is the frame of the wire format:
  64 bytes, the header, the length, the payload, the filler.
\<close>

lemma bslhid_outbuf_frame:
  assumes "length data \<le> 62"
  shows "bslhid_outbuf data =
           [0x3F, of_nat (length data)] @ data @ replicate (62 - length data) 0xAC"
proof -
  have "(64::nat) = Suc (Suc 62)"
    by simp
  then have r: "replicate 64 (0xAC :: byte) = 0xAC # 0xAC # replicate 62 0xAC"
    by (simp only: replicate.simps)
  show ?thesis
    by (simp add: bslhid_outbuf_def BSLHID_XFER_SIZE_def BSLHID_HEADER_def Let_def r)
qed

text \<open>
  Whatever the device answers, a transfer \<open>bslhid_send\<close> makes carries what is
  left of \<open>data\<close>: its first transfer is the payload as the caller gave it.
\<close>

lemma bslhid_send_first_transfer:
  assumes "handle tr \<noteq> NULL" and "data \<noteq> []" and "length data \<le> 62"
    and "bslhid_send tr data script = Some (cs, res)"
  shows "\<exists>cs'. cs = BulkOut (handle tr) (out_ep tr) data # cs'"
  using assms
  by (cases script)
     (auto simp: bslhid_send_def BSLHID_MTU_def BSLHID_XFER_SIZE_def Let_def
           split: if_splits option.splits)

text \<open>
  C1. For the HID backend, send with a payload of length \<open>len \<le> 62\<close> should
  issue exactly one 64-byte bulk transfer: header 0x3F, \<open>len\<close>, the payload,
  the filler 0xAC. The code does not: on an open instance with the three-byte
  payload 11 22 33, taken whole by the device, the one transfer made carries
  the three payload bytes and nothing else, although the frame built in
  \<open>outbuf\<close> has 64 bytes; with an empty payload no transfer is made at all.
\<close>

theorem bslhid_send_transfers_raw_payload:
  "bslhid_send \<lparr>cfg_number = 1, int_number = 0, handle = 1, in_ep = 0x81, out_ep = 0x01,
                 path = ''001:002'', serial = []\<rparr> [0x11, 0x22, 0x33] [(0, 3)]
     = Some ([BulkOut 1 0x01 [0x11, 0x22, 0x33]], Inr ())
   \<and> bslhid_outbuf [0x11, 0x22, 0x33]
       = [0x3F, 0x03, 0x11, 0x22, 0x33] @ replicate 59 0xAC
   \<and> bslhid_send \<lparr>cfg_number = 1, int_number = 0, handle = 1, in_ep = 0x81, out_ep = 0x01,
                   path = ''001:002'', serial = []\<rparr> [] [] = Some ([], Inr ())"
proof -
  have "bslhid_outbuf [0x11, 0x22, 0x33] = [0x3F, 0x03, 0x11, 0x22, 0x33] @ replicate 59 0xAC"
    by (simp add: bslhid_outbuf_frame)
  then show ?thesis
    by (simp add: bslhid_send_def BSLHID_MTU_def BSLHID_XFER_SIZE_def NULL_def)
qed

text \<open>
  C2, as amended. For the HID backend with an open handle, recv makes one
  64-byte bulk read, which yields \<open>r\<close> bytes, and fails exactly when the read
  itself returns an error other than a timeout, or \<open>r < 2\<close>, or byte 0 differs
  from 0x3F, or the declared length (byte 1) exceeds \<open>max_len\<close>, or the
  declared length + 2 exceeds \<open>r\<close>; in every other case it returns exactly the
  declared-length payload, bytes 2..2+length of the transfer.
\<close>

theorem bslhid_recv_fails_exactly_when:
  assumes "handle tr \<noteq> NULL"
  shows "fst (bslhid_recv tr max_len (rc, inbuf)) = [BulkIn (handle tr) (in_ep tr) 64]
   \<and> (isl (snd (bslhid_recv tr max_len (rc, inbuf))) \<longleftrightarrow>
        (rc \<noteq> 0 \<and> rc \<noteq> LIBUSB_ERROR_TIMEOUT) \<or> int (length inbuf) < 2 \<or> inbuf ! 0 \<noteq> 0x3F
         \<or> uint (inbuf ! 1) > max_len \<or> uint (inbuf ! 1) + 2 > int (length inbuf))
   \<and> (\<not> isl (snd (bslhid_recv tr max_len (rc, inbuf))) \<longrightarrow>
        snd (bslhid_recv tr max_len (rc, inbuf)) = Inr (take (unat (inbuf ! 1)) (drop 2 inbuf)))"
  using assms
  by (auto simp: bslhid_recv_def Let_def BSLHID_XFER_SIZE_def BSLHID_HEADER_def)

theorem bslhid_recv_fails_exactly_when_witness:
  "handle \<lparr>cfg_number = 1, int_number = 0, handle = 1, in_ep = 0x81, out_ep = 0x01,
            path = ''001:002'', serial = []\<rparr> \<noteq> NULL
   \<and> snd (bslhid_recv \<lparr>cfg_number = 1, int_number = 0, handle = 1, in_ep = 0x81,
                        out_ep = 0x01, path = ''001:002'', serial = []\<rparr> 62
             (0, [0x3F, 0x02, 0xAA, 0xBB] @ replicate 60 0xAC)) = Inr [0xAA, 0xBB]
   \<and> isl (snd (bslhid_recv \<lparr>cfg_number = 1, int_number = 0, handle = 1, in_ep = 0x81,
                        out_ep = 0x01, path = ''001:002'', serial = []\<rparr> 62
             (0, [0x3E, 0x02, 0xAA, 0xBB] @ replicate 60 0xAC)))"
  using bslhid_recv_fails_exactly_when
    [of "\<lparr>cfg_number = 1, int_number = 0, handle = 1, in_ep = 0x81, out_ep = 0x01,
          path = ''001:002'', serial = []\<rparr>" 62 0 "[0x3F, 0x02, 0xAA, 0xBB] @ replicate 60 0xAC"]
    bslhid_recv_fails_exactly_when
    [of "\<lparr>cfg_number = 1, int_number = 0, handle = 1, in_ep = 0x81, out_ep = 0x01,
          path = ''001:002'', serial = []\<rparr>" 62 0 "[0x3E, 0x02, 0xAA, 0xBB] @ replicate 60 0xAC"]
  by (simp add: NULL_def)

text \<open>
  C2 as it is stated fails: when the read returns an error other than a
  timeout (here -1, an input/output error) recv fails, although the three
  bytes the read left are a well-formed frame: \<open>r = 3\<close>, the header is 0x3F,
  the declared length is 1, within \<open>max_len = 62\<close> and within \<open>r\<close>.
\<close>

theorem bslhid_recv_transfer_error_counterexample:
  "isl (snd (bslhid_recv \<lparr>cfg_number = 1, int_number = 0, handle = 1, in_ep = 0x81,
                          out_ep = 0x01, path = ''001:002'', serial = []\<rparr> 62
               (- 1, [0x3F, 0x01, 0x55])))
   \<and> \<not> (int (length [0x3F, 0x01, 0x55 :: byte]) < 2
         \<or> [0x3F, 0x01, 0x55 :: byte] ! 0 \<noteq> 0x3F
         \<or> uint ([0x3F, 0x01, 0x55 :: byte] ! 1) > 62
         \<or> uint ([0x3F, 0x01, 0x55 :: byte] ! 1) + 2 > int (length [0x3F, 0x01, 0x55 :: byte]))"
  by (simp add: bslhid_recv_def Let_def NULL_def LIBUSB_ERROR_TIMEOUT_def)

subsection \<open>FTDI: the handle of flush and set_modem\<close>

text \<open>
  Both operations send their control transfer on the handle found in the
  block \<open>malloc\<close> returned, whatever the caller's instance holds.
\<close>

lemma tr_flush_handle:
  assumes "fresh \<noteq> 0"
  shows "\<exists>t. tr_flush ctrl st fresh junk tr_base = Some t
           \<and> control_handles (fst t) = [ftdi_handle junk]"
  using assms by (simp add: tr_flush_def do_cfg_def malloc_ftdi_def Let_def)

lemma tr_set_modem_handle:
  assumes "fresh \<noteq> 0"
  shows "\<exists>t. tr_set_modem m_dtr m_rts ctrl st fresh junk tr_base state = Some t
           \<and> control_handles (fst t) = [ftdi_handle junk]"
  using assms by (simp add: tr_set_modem_def do_cfg_def malloc_ftdi_def Let_def)

text \<open>
  C3. For the FTDI backend, flush and set_modem should issue their control
  transfer on the caller-supplied instance's open handle. The code does not:
  with the caller's instance at address 1 holding the open handle 5, and
  \<open>malloc\<close> returning a block at address 2 whose memory holds 0, both send
  their control transfer on handle 0 (NULL), and none on handle 5.
\<close>

theorem ftdi_flush_set_modem_ignore_caller_handle:
  "tr_flush (\<lambda>c. 0) [1 \<mapsto> \<lparr>ftdi_handle = 5\<rparr>] 2 \<lparr>ftdi_handle = 0\<rparr> 1
     = Some ([Control 0 0x40 0 1 0 []], Inr ())
   \<and> tr_set_modem 1 2 (\<lambda>c. 0) [1 \<mapsto> \<lparr>ftdi_handle = 5\<rparr>] 2 \<lparr>ftdi_handle = 0\<rparr> 1 3
     = Some ([Control 0 0x40 1 0x300 0 []], Inr ())"
  by (simp add: tr_flush_def tr_set_modem_def do_cfg_def malloc_ftdi_def Let_def
      REQTYPE_HOST_TO_DEVICE_def FTDI_SIO_RESET_def FTDI_SIO_RESET_PURGE_RX_def
      FTDI_SIO_MODEM_CTRL_def FTDI_WRITE_DTR_def FTDI_WRITE_RTS_def)

subsection \<open>Modem lines on the wire\<close>

text \<open>
  C10. For the CP210x and FTDI backends, set_modem computes a wire value
  that always has both write-enable bits (0x0100 and 0x0200) set, has the DTR
  wire bit (0x0001) set exactly when the requested DTR is clear, and has the
  RTS wire bit (0x0002) set exactly when the requested RTS is clear; with DTR
  and RTS both requested the value sent is 0x0300. (For FTDI the transfer is
  made once \<open>malloc\<close> has returned a block.)
\<close>

theorem set_modem_wire_value:
  "(\<exists>v. wire_values (fst (cp210x_usbtr_set_modem m_dtr m_rts ctrl h state)) = [v]
        \<and> v AND 0x0100 = 0x0100 \<and> v AND 0x0200 = 0x0200
        \<and> (v AND 0x0001 = 0x0001) = (state AND m_dtr = 0)
        \<and> (v AND 0x0002 = 0x0002) = (state AND m_rts = 0)
        \<and> (state AND m_dtr \<noteq> 0 \<and> state AND m_rts \<noteq> 0 \<longrightarrow> v = 0x0300))
   \<and> (fresh \<noteq> 0 \<longrightarrow>
        (\<exists>t v. tr_set_modem m_dtr m_rts ctrl st fresh junk tr_base state = Some t
           \<and> wire_values (fst t) = [v]
           \<and> v AND 0x0100 = 0x0100 \<and> v AND 0x0200 = 0x0200
           \<and> (v AND 0x0001 = 0x0001) = (state AND m_dtr = 0)
           \<and> (v AND 0x0002 = 0x0002) = (state AND m_rts = 0)
           \<and> (state AND m_dtr \<noteq> 0 \<and> state AND m_rts \<noteq> 0 \<longrightarrow> v = 0x0300)))"
proof (intro conjI impI)
  show "\<exists>v. wire_values (fst (cp210x_usbtr_set_modem m_dtr m_rts ctrl h state)) = [v]
        \<and> v AND 0x0100 = 0x0100 \<and> v AND 0x0200 = 0x0200
        \<and> (v AND 0x0001 = 0x0001) = (state AND m_dtr = 0)
        \<and> (v AND 0x0002 = 0x0002) = (state AND m_rts = 0)
        \<and> (state AND m_dtr \<noteq> 0 \<and> state AND m_rts \<noteq> 0 \<longrightarrow> v = 0x0300)"
    by (simp add: cp210x_usbtr_set_modem_def Let_def CP210X_DTR_def CP210X_RTS_def
        CP210X_WRITE_DTR_def CP210X_WRITE_RTS_def)
next
  assume "fresh \<noteq> 0"
  then show "\<exists>t v. tr_set_modem m_dtr m_rts ctrl st fresh junk tr_base state = Some t
           \<and> wire_values (fst t) = [v]
           \<and> v AND 0x0100 = 0x0100 \<and> v AND 0x0200 = 0x0200
           \<and> (v AND 0x0001 = 0x0001) = (state AND m_dtr = 0)
           \<and> (v AND 0x0002 = 0x0002) = (state AND m_rts = 0)
           \<and> (state AND m_dtr \<noteq> 0 \<and> state AND m_rts \<noteq> 0 \<longrightarrow> v = 0x0300)"
    by (simp add: tr_set_modem_def do_cfg_def malloc_ftdi_def Let_def FTDI_DTR_def
        FTDI_RTS_def FTDI_WRITE_DTR_def FTDI_WRITE_RTS_def)
qed

theorem set_modem_wire_value_witness:
  "wire_values (fst (cp210x_usbtr_set_modem 1 2 (\<lambda>c. 0) 1 3)) = [0x0300]
   \<and> (2::nat) \<noteq> 0
   \<and> (\<exists>t. tr_set_modem 1 2 (\<lambda>c. 0) [1 \<mapsto> \<lparr>ftdi_handle = 5\<rparr>] 2 \<lparr>ftdi_handle = 0\<rparr> 1 3 = Some t
          \<and> wire_values (fst t) = [0x0300])"
  using set_modem_wire_value
    [of 1 2 "\<lambda>c. 0" 1 3 2 "[1 \<mapsto> \<lparr>ftdi_handle = 5\<rparr>]" "\<lparr>ftdi_handle = 0\<rparr>" 1]
  by auto

subsection \<open>The firmware image\<close>

lemma ihex_extract_append:
  "ihex_extract f (pre @ rest) =
     (case ihex_extract f pre of Inl e \<Rightarrow> Inl e | Inr f' \<Rightarrow> ihex_extract f' rest)"
  by (induction pre arbitrary: f) (simp_all split: sum.splits)

lemma do_extract_gap: "fw_size f \<noteq> ch_addr ch \<Longrightarrow> do_extract f ch = Inl FirmwareGap"
  by (simp add: do_extract_def)

lemma unat_size_add:
  fixes s :: "32 word"
  assumes "unat s + n \<le> 16284"
  shows "unat (s + of_nat n) = unat s + n"
proof -
  have n: "unat (of_nat n :: 32 word) = n"
    using assms by (simp add: unsigned_of_nat take_bit_nat_eq_self)
  have "unat s + unat (of_nat n :: 32 word) < 2 ^ LENGTH(32)"
    using assms n by simp
  then have "unat (s + of_nat n) = unat s + unat (of_nat n :: 32 word)"
    by (rule unat_add_lem [THEN iffD1])
  with n show ?thesis
    by simp
qed

lemma do_extract_contiguous:
  assumes "unat (ch_addr ch) = unat (fw_size f)"
    and "unat (fw_size f) + length (ch_data ch) \<le> 16284"
    and "length (fw_buf f) = 16284"
  shows "\<exists>f'. do_extract f ch = Inr f' \<and> fw_image f' = fw_image f @ ch_data ch
           \<and> length (fw_buf f') = 16284
           \<and> unat (fw_size f') = unat (fw_size f) + length (ch_data ch)"
proof -
  have eq: "fw_size f = ch_addr ch"
    using assms(1) by (simp add: word_unat_eq_iff)
  have sz: "unat (fw_size f + of_nat (length (ch_data ch))) = unat (fw_size f) + length (ch_data ch)"
    using assms(2) by (rule unat_size_add)
  show ?thesis
    using assms(2,3) eq sz
    by (simp add: do_extract_def fw_image_def TI_FIRMWARE_BUF_SIZE_def)
qed

lemma ihex_extract_contiguous:
  assumes "contiguous_from (unat (fw_size f)) chs"
    and "unat (fw_size f) + length (concat (map ch_data chs)) \<le> 16284"
    and "length (fw_buf f) = 16284"
  shows "\<exists>f'. ihex_extract f chs = Inr f' \<and> fw_image f' = fw_image f @ concat (map ch_data chs)
           \<and> length (fw_buf f') = 16284
           \<and> unat (fw_size f') = unat (fw_size f) + length (concat (map ch_data chs))"
  using assms
proof (induction chs arbitrary: f)
  case Nil
  then show ?case by simp
next
  case (Cons ch chs)
  from Cons.prems have a: "unat (ch_addr ch) = unat (fw_size f)"
    and fit: "unat (fw_size f) + length (ch_data ch) \<le> 16284"
    by simp_all
  from do_extract_contiguous [OF a fit Cons.prems(3)]
  obtain f1 where f1: "do_extract f ch = Inr f1" "fw_image f1 = fw_image f @ ch_data ch"
    "length (fw_buf f1) = 16284" "unat (fw_size f1) = unat (fw_size f) + length (ch_data ch)"
    by blast
  have "contiguous_from (unat (fw_size f1)) chs"
    using Cons.prems(1) a f1(4) by simp
  moreover have "unat (fw_size f1) + length (concat (map ch_data chs)) \<le> 16284"
    using Cons.prems(2) f1(4) by simp
  ultimately obtain f' where f': "ihex_extract f1 chs = Inr f'"
    "fw_image f' = fw_image f1 @ concat (map ch_data chs)" "length (fw_buf f') = 16284"
    "unat (fw_size f') = unat (fw_size f1) + length (concat (map ch_data chs))"
    using Cons.IH [of f1] f1(3) by blast
  show ?case
    using f1 f' by simp
qed

text \<open>
  C7. During firmware accumulation, with the chunks processed in order: a
  chunk whose start address differs from the current accumulated image
  length, met after the chunks \<open>pre\<close> were taken, ends the decoding with the
  gap failure whatever chunks \<open>post\<close> follow, so nothing is filled in and no
  further chunk is processed; and every chunk list that is contiguous from
  address 0 and fits the firmware buffer is accepted, the accumulated image
  being the chunks' data concatenated in order.
\<close>

theorem firmware_accumulation:
  "(ihex_extract f0 pre = Inr f \<and> ch_addr ch \<noteq> fw_size f
      \<longrightarrow> ihex_extract f0 (pre @ ch # post) = Inl FirmwareGap)
   \<and> (contiguous_from 0 chunks \<and> length (concat (map ch_data chunks)) \<le> TI_FIRMWARE_BUF_SIZE
      \<longrightarrow> (\<exists>f'. load_firmware chunks = Inr f' \<and> fw_image f' = concat (map ch_data chunks)
                \<and> unat (fw_size f') = length (concat (map ch_data chunks))))"
proof (intro conjI impI)
  assume "ihex_extract f0 pre = Inr f \<and> ch_addr ch \<noteq> fw_size f"
  then have "ihex_extract f0 pre = Inr f" and "do_extract f ch = Inl FirmwareGap"
    by (auto simp: do_extract_def)
  then show "ihex_extract f0 (pre @ ch # post) = Inl FirmwareGap"
    by (simp add: ihex_extract_append)
next
  assume h: "contiguous_from 0 chunks \<and> length (concat (map ch_data chunks)) \<le> TI_FIRMWARE_BUF_SIZE"
  let ?f = "\<lparr>fw_buf = replicate TI_FIRMWARE_BUF_SIZE 0, fw_size = 0\<rparr>"
  have "contiguous_from (unat (fw_size ?f)) chunks"
    and "unat (fw_size ?f) + length (concat (map ch_data chunks)) \<le> 16284"
    and "length (fw_buf ?f) = 16284"
    using h by (simp_all add: TI_FIRMWARE_BUF_SIZE_def)
  from ihex_extract_contiguous [OF this]
  show "\<exists>f'. load_firmware chunks = Inr f' \<and> fw_image f' = concat (map ch_data chunks)
          \<and> unat (fw_size f') = length (concat (map ch_data chunks))"
    by (auto simp: load_firmware_def fw_image_def)
qed

theorem firmware_accumulation_witness:
  "ihex_extract \<lparr>fw_buf = replicate 16284 0, fw_size = 0\<rparr> [\<lparr>ch_addr = 0, ch_data = [0x41, 0x41, 0x41, 0x41]\<rparr>]
     = Inr \<lparr>fw_buf = [0x41, 0x41, 0x41, 0x41] @ replicate 16280 0, fw_size = 4\<rparr>
   \<and> ch_addr \<lparr>ch_addr = 8, ch_data = [0x42, 0x42, 0x42, 0x42]\<rparr>
       \<noteq> fw_size \<lparr>fw_buf = [0x41, 0x41, 0x41, 0x41] @ replicate 16280 0, fw_size = 4\<rparr>
   \<and> ihex_extract \<lparr>fw_buf = replicate 16284 0, fw_size = 0\<rparr>
       ([\<lparr>ch_addr = 0, ch_data = [0x41, 0x41, 0x41, 0x41]\<rparr>]
         @ \<lparr>ch_addr = 8, ch_data = [0x42, 0x42, 0x42, 0x42]\<rparr>
         # [\<lparr>ch_addr = 12, ch_data = [0x43]\<rparr>]) = Inl FirmwareGap
   \<and> contiguous_from 0 [\<lparr>ch_addr = 0, ch_data = [0x41, 0x41, 0x41, 0x41]\<rparr>,
                          \<lparr>ch_addr = 4, ch_data = [0x42, 0x42, 0x42, 0x42]\<rparr>]
   \<and> (\<exists>f'. load_firmware [\<lparr>ch_addr = 0, ch_data = [0x41, 0x41, 0x41, 0x41]\<rparr>,
                             \<lparr>ch_addr = 4, ch_data = [0x42, 0x42, 0x42, 0x42]\<rparr>] = Inr f'
          \<and> fw_image f' = [0x41, 0x41, 0x41, 0x41, 0x42, 0x42, 0x42, 0x42]
          \<and> unat (fw_size f') = 8)"
proof -
  have e: "ihex_extract \<lparr>fw_buf = replicate 16284 0, fw_size = 0\<rparr>
             [\<lparr>ch_addr = 0, ch_data = [0x41, 0x41, 0x41, 0x41]\<rparr>]
           = Inr \<lparr>fw_buf = [0x41, 0x41, 0x41, 0x41] @ replicate 16280 0, fw_size = 4\<rparr>"
    by (simp add: do_extract_def TI_FIRMWARE_BUF_SIZE_def)
  have l: "length (concat (map ch_data [\<lparr>ch_addr = 0, ch_data = [0x41, 0x41, 0x41, 0x41 :: byte]\<rparr>,
              \<lparr>ch_addr = 4, ch_data = [0x42, 0x42, 0x42, 0x42]\<rparr>])) = 8"
    by simp
  show ?thesis
    using e
      firmware_accumulation
        [of "\<lparr>fw_buf = replicate 16284 0, fw_size = 0\<rparr>"
            "[\<lparr>ch_addr = 0, ch_data = [0x41, 0x41, 0x41, 0x41]\<rparr>]"
            "\<lparr>fw_buf = [0x41, 0x41, 0x41, 0x41] @ replicate 16280 0, fw_size = 4\<rparr>"
            "\<lparr>ch_addr = 8, ch_data = [0x42, 0x42, 0x42, 0x42]\<rparr>"
            "[\<lparr>ch_addr = 12, ch_data = [0x43]\<rparr>]"
            "[\<lparr>ch_addr = 0, ch_data = [0x41, 0x41, 0x41, 0x41]\<rparr>,
              \<lparr>ch_addr = 4, ch_data = [0x42, 0x42, 0x42, 0x42]\<rparr>]", unfolded l]
    by (simp add: TI_FIRMWARE_BUF_SIZE_def)
qed


text \<open>The checksum loop adds the bytes from offset \<open>i\<close> up to \<open>n\<close>.\<close>

lemma cksum_loop_eq:
  "n \<le> length b \<Longrightarrow> i \<le> n \<Longrightarrow> cksum_loop b i n c = c + sum_list (take (n - i) (drop i b))"
proof (induction b i n c rule: cksum_loop.induct)
  case (1 b i n c)
  show ?case
  proof (cases "i < n")
    case True
    then have "take (n - i) (drop i b) = b ! i # take (n - Suc i) (drop (Suc i) b)"
      using 1(2) by (metis Cons_nth_drop_Suc Suc_diff_Suc less_le_trans take_Suc_Cons)
    with 1 True show ?thesis by (simp add: add.assoc)
  next
    case False
    with 1 show ?thesis by simp
  qed
qed

lemma unat_sum_list: "unat (sum_list (xs :: byte list)) = sum_list (map unat xs) mod 256"
  by (induction xs) (simp_all add: unat_word_ariths mod_add_right_eq)

lemma unat_low_byte:
  fixes w :: "16 word"
  shows "unat (ucast (w AND 0xff) :: byte) = unat w mod 256"
proof -
  have "(0xff :: 16 word) = mask 8"
    by (simp add: mask_eq_exp_minus_1)
  then have "w AND 0xff = take_bit 8 w"
    by (simp add: take_bit_eq_mask)
  then have "unat (w AND 0xff) = unat w mod 2 ^ 8"
    by (simp add: take_bit_eq_mod unat_mod)
  then show ?thesis
    by (simp add: unsigned_ucast_eq take_bit_eq_mod)
qed

lemma unat_high_byte:
  fixes w :: "16 word"
  shows "unat (ucast (drop_bit 8 w) :: byte) = unat w div 256"
proof -
  have "unat (drop_bit 8 w) = unat w div 2 ^ 8"
    by (simp add: drop_bit_eq_div unat_div)
  moreover have "unat w < 2 ^ 16"
    using unsigned_less [of w] by simp
  ultimately show ?thesis
    by (simp add: unsigned_ucast_eq take_bit_eq_mod)
qed

lemma unat_real_size:
  fixes s :: "32 word"
  assumes "3 \<le> unat s" and "unat s \<le> 16284"
  shows "unat (ucast (s - 3) :: 16 word) = unat s - 3"
proof -
  have "unat (s - 3) = unat s - 3"
    using assms by (simp add: unat_sub word_le_nat_alt)
  then show ?thesis
    using assms by (simp add: unsigned_ucast_eq take_bit_eq_mod)
qed

lemma do_extract_bounds:
  assumes "do_extract f ch = Inr f'" and "16284 \<le> length (fw_buf f)"
    and "unat (fw_size f) \<le> 16284"
  shows "16284 \<le> length (fw_buf f') \<and> unat (fw_size f') \<le> 16284"
  using assms
  by (auto simp: do_extract_def TI_FIRMWARE_BUF_SIZE_def split: if_splits)

lemma ihex_extract_bounds:
  assumes "ihex_extract f chs = Inr f'" and "16284 \<le> length (fw_buf f)"
    and "unat (fw_size f) \<le> 16284"
  shows "16284 \<le> length (fw_buf f') \<and> unat (fw_size f') \<le> 16284"
  using assms
proof (induction chs arbitrary: f)
  case Nil
  then show ?case by simp
next
  case (Cons ch chs)
  then obtain f1 where f1: "do_extract f ch = Inr f1" "ihex_extract f1 chs = Inr f'"
    by (auto split: sum.splits)
  from do_extract_bounds [OF f1(1) Cons.prems(2,3)] Cons.IH [OF f1(2)]
  show ?case by simp
qed

lemma load_firmware_bounds:
  assumes "load_firmware chunks = Inr f"
  shows "16284 \<le> length (fw_buf f) \<and> unat (fw_size f) \<le> 16284"
  using assms ihex_extract_bounds [of "\<lparr>fw_buf = replicate TI_FIRMWARE_BUF_SIZE 0, fw_size = 0\<rparr>" chunks f]
  by (simp add: load_firmware_def TI_FIRMWARE_BUF_SIZE_def)

text \<open>
  C8, as amended. After a successful firmware decode of total length
  \<open>L \<ge> 3\<close>, finalization overwrites the first three bytes of the accumulated
  image in place: the finished image still has \<open>L\<close> bytes, its bytes from
  offset 3 on are those of the accumulated image, its first two bytes are the
  little-endian encoding of \<open>L - 3\<close>, and its third byte is the 8-bit unsigned
  sum (modulo 256) of all image bytes from offset 3 on.
\<close>

theorem prepare_firmware_header:
  assumes "load_firmware chunks = Inr f" and "3 \<le> unat (fw_size f)"
  shows "length (fw_image (prepare_firmware f)) = unat (fw_size f)
       \<and> unat (fw_image (prepare_firmware f) ! 0) + 256 * unat (fw_image (prepare_firmware f) ! 1)
           = unat (fw_size f) - 3
       \<and> unat (fw_image (prepare_firmware f) ! 2)
           = sum_list (map unat (drop 3 (fw_image (prepare_firmware f)))) mod 256
       \<and> drop 3 (fw_image (prepare_firmware f)) = drop 3 (fw_image f)"
proof -
  let ?L = "unat (fw_size f)"
  let ?w = "ucast (fw_size f - 3) :: 16 word"
  from load_firmware_bounds [OF assms(1)]
  have len: "16284 \<le> length (fw_buf f)" and sz: "?L \<le> 16284"
    by simp_all
  have rest: "drop 3 (fw_image (prepare_firmware f)) = drop 3 (fw_image f)"
    by (simp add: prepare_firmware_def fw_image_def Let_def drop_take)
  have ck: "cksum_loop (fw_buf f) 3 ?L 0 = sum_list (drop 3 (fw_image f))"
    using cksum_loop_eq [of ?L "fw_buf f" 3 0] len sz assms(2)
    by (simp add: fw_image_def drop_take)
  have b0: "fw_image (prepare_firmware f) ! 0 = ucast (?w AND 0xff)"
    and b1: "fw_image (prepare_firmware f) ! 1 = ucast (drop_bit 8 ?w)"
    and b2: "fw_image (prepare_firmware f) ! 2 = cksum_loop (fw_buf f) 3 ?L 0"
  proof -
    have "0 < length (fw_buf f)" and "1 < length (fw_buf f)" and "2 < length (fw_buf f)"
      using len by linarith+
    then show "fw_image (prepare_firmware f) ! 0 = ucast (?w AND 0xff)"
      and "fw_image (prepare_firmware f) ! 1 = ucast (drop_bit 8 ?w)"
      and "fw_image (prepare_firmware f) ! 2 = cksum_loop (fw_buf f) 3 ?L 0"
      using assms(2) by (simp_all add: prepare_firmware_def fw_image_def Let_def)
  qed
  have "unat (ucast (?w AND 0xff) :: byte) + 256 * unat (ucast (drop_bit 8 ?w) :: byte) = ?L - 3"
    using unat_real_size [OF assms(2) sz] by (simp add: unat_low_byte unat_high_byte)
  moreover have "length (fw_image (prepare_firmware f)) = ?L"
    using len sz by (simp add: prepare_firmware_def fw_image_def Let_def)
  ultimately show ?thesis
    using rest ck b0 b1 b2 by (simp add: unat_sum_list)
qed

theorem prepare_firmware_header_witness:
  "load_firmware [\<lparr>ch_addr = 0, ch_data = [0x41, 0x41, 0x41, 0x41]\<rparr>,
                  \<lparr>ch_addr = 4, ch_data = [0x42, 0x42, 0x42, 0x42]\<rparr>]
     = Inr \<lparr>fw_buf = [0x41, 0x41, 0x41, 0x41, 0x42, 0x42, 0x42, 0x42] @ replicate 16276 0,
            fw_size = 8\<rparr>
   \<and> 3 \<le> unat (fw_size \<lparr>fw_buf = [0x41, 0x41, 0x41, 0x41, 0x42, 0x42, 0x42, 0x42 :: byte]
                                    @ replicate 16276 0, fw_size = 8\<rparr>)
   \<and> length (fw_image (prepare_firmware
         \<lparr>fw_buf = [0x41, 0x41, 0x41, 0x41, 0x42, 0x42, 0x42, 0x42] @ replicate 16276 0,
          fw_size = 8\<rparr>)) = 8
   \<and> unat (fw_image (prepare_firmware
         \<lparr>fw_buf = [0x41, 0x41, 0x41, 0x41, 0x42, 0x42, 0x42, 0x42] @ replicate 16276 0,
          fw_size = 8\<rparr>) ! 0)
       + 256 * unat (fw_image (prepare_firmware
         \<lparr>fw_buf = [0x41, 0x41, 0x41, 0x41, 0x42, 0x42, 0x42, 0x42] @ replicate 16276 0,
          fw_size = 8\<rparr>) ! 1) = 5
   \<and> drop 3 (fw_image (prepare_firmware
         \<lparr>fw_buf = [0x41, 0x41, 0x41, 0x41, 0x42, 0x42, 0x42, 0x42] @ replicate 16276 0,
          fw_size = 8\<rparr>)) = [0x41, 0x42, 0x42, 0x42, 0x42]"
proof -
  let ?f = "\<lparr>fw_buf = [0x41, 0x41, 0x41, 0x41, 0x42, 0x42, 0x42, 0x42 :: byte] @ replicate 16276 0,
             fw_size = 8 :: 32 word\<rparr>"
  have l: "load_firmware [\<lparr>ch_addr = 0, ch_data = [0x41, 0x41, 0x41, 0x41]\<rparr>,
                  \<lparr>ch_addr = 4, ch_data = [0x42, 0x42, 0x42, 0x42]\<rparr>] = Inr ?f"
    by (simp add: load_firmware_def do_extract_def TI_FIRMWARE_BUF_SIZE_def)
  have s: "3 \<le> unat (fw_size ?f)"
    by simp
  have i: "fw_image ?f = [0x41, 0x41, 0x41, 0x41, 0x42, 0x42, 0x42, 0x42]"
    by (simp add: fw_image_def)
  have d: "drop 3 (fw_image ?f) = [0x41, 0x42, 0x42, 0x42, 0x42]"
    by (simp add: fw_image_def)
  from prepare_firmware_header [OF l s] l s show ?thesis
    by (simp only: d) simp
qed

text \<open>
  C8 as it is stated fails: no header is prepended. The decoded image
  01 02 03 04 becomes 01 00 04 04, of the same length; the finished image is
  not three bytes followed by the accumulated image.
\<close>

theorem prepare_firmware_overwrites_counterexample:
  "\<exists>f. load_firmware [\<lparr>ch_addr = 0, ch_data = [0x01, 0x02, 0x03, 0x04]\<rparr>] = Inr f
      \<and> fw_image f = [0x01, 0x02, 0x03, 0x04]
      \<and> fw_image (prepare_firmware f) = [0x01, 0x00, 0x04, 0x04]
      \<and> \<not> (\<exists>h. length h = 3 \<and> fw_image (prepare_firmware f) = h @ fw_image f)"
proof -
  let ?f = "\<lparr>fw_buf = [0x01, 0x02, 0x03, 0x04 :: byte] @ replicate 16280 0, fw_size = 4 :: 32 word\<rparr>"
  have l: "load_firmware [\<lparr>ch_addr = 0, ch_data = [0x01, 0x02, 0x03, 0x04]\<rparr>] = Inr ?f"
    by (simp add: load_firmware_def do_extract_def TI_FIRMWARE_BUF_SIZE_def)
  have i: "fw_image ?f = [0x01, 0x02, 0x03, 0x04]"
    by (simp add: fw_image_def)
  have p: "fw_image (prepare_firmware ?f) = [0x01, 0x00, 0x04, 0x04]"
    by (simp add: fw_image_def prepare_firmware_def Let_def)
  have "\<not> (\<exists>h. length h = 3 \<and> fw_image (prepare_firmware ?f) = h @ fw_image ?f)"
    unfolding i p by auto
  with l i p show ?thesis by blast
qed

subsection \<open>What recv returns\<close>




















lemma cdc_inv_after_flush:
  assumes "int (length (rbuf tr)) = READ_BUFFER_SIZE" and "cdc_usbtr_flush tr rcs = Some (cs, tr')"
  shows "cdc_inv tr'"
  using assms
  by (auto simp: cdc_usbtr_flush_def cdc_inv_def READ_BUFFER_SIZE_def split: option.splits)

lemma cdc_inv_after_failure:
  assumes "cdc_inv tr" and "cdc_acm_usbtr_recv tr len xfer = (cs, tr', Inl e)"
  shows "cdc_inv tr'"
  using assms
  by (auto simp: cdc_acm_usbtr_recv_def cdc_inv_def Let_def split: if_splits)




text \<open>
  Two more empty successes, which the loops of ftdi.c (\<open>received > 2\<close>) and of
  ti3410.c (\<open>rlen > 0\<close>) guard against and these two functions do not:
  CDC-ACM recv, which has no loop and no deadline, when its one read times
  out with nothing stored, and CP210x recv when a read returns 0 with nothing
  stored.
\<close>

lemma recv_empty_success_unguarded:
  "snd (snd (cdc_acm_usbtr_recv
          \<lparr>cdc_int_number = 0, cdc_handle = 7, cdc_in_ep = 0x81, cdc_out_ep = 0x01,
           rbuf_len = 0, rbuf_ptr = 0, rbuf = replicate 1024 0\<rparr> 16
          (LIBUSB_ERROR_TIMEOUT, []))) = Inr []
   \<and> cp210x_usbtr_recv \<lparr>cp_handle = 7, cp_int_number = 0\<rparr> 16 100 [(100, 0, [])]
     = Some ([BulkIn 7 0x81 16], Inr [])"
  by (simp add: cdc_acm_usbtr_recv_def Let_def cp210x_usbtr_recv_def bulk_read_def
      READ_BUFFER_SIZE_def V1_IN_EP_def)

subsection \<open>Suspending and resuming the HID transport\<close>

text \<open>The definitions a concrete run of the locator and of an open unfolds.\<close>

lemmas usbutil_defs =
  usbutil_find_by_loc_def usbutil_find_by_id_def strtok_def is_delim_def atoi_def isspace_def
  isdigit_def strcasecmp_eq_def Let_def

lemmas open_step_defs =
  and_then_def c_div_def libusb_open_def detach_calls_def NULL_def
  USB_ENDPOINT_TYPE_MASK_def USB_ENDPOINT_TYPE_BULK_def USB_ENDPOINT_DIR_MASK_def

lemmas bslhid_open_defs =
  bslhid_open_def bslhid_open_found_def bslhid_open_device_def bslhid_find_interface_def
  bslhid_flush_def bslhid_resume_def bslhid_suspend_def USB_CLASS_HID_def BSLHID_VID_def
  BSLHID_PID_def

text \<open>Suspend clears the handle and nothing else: the identity is retained.\<close>

lemma bslhid_suspend_retains_identity:
  "path (snd (bslhid_suspend tr)) = path tr \<and> serial (snd (bslhid_suspend tr)) = serial tr
   \<and> handle (snd (bslhid_suspend tr)) = NULL"
  by (simp add: bslhid_suspend_def)

text \<open>
  A suspended instance is resumed by looking the device up at its recorded
  path, and by nothing else; when no device is found there, resume fails.
\<close>

lemma bslhid_resume_by_path:
  assumes "handle tr = NULL"
  shows "bslhid_resume os usb devs tr =
           (case usbutil_find_by_loc devs (Some (path tr)) of
              None \<Rightarrow> ([], tr, Inl DiscoveryFailure)
            | Some d \<Rightarrow> bslhid_open_device os usb tr d)"
  using assms by (simp add: bslhid_resume_def)

text \<open>
  C4. Suspend should retain the identity, and resume re-locate the device by
  it: the path for an instance opened by path, the serial number for one
  opened by serial number. The code does so for the path only. With one
  bootstrap loader on the bus, at 1:2, with serial number ABC: open by that
  serial number succeeds and records it, the path staying empty; suspend
  keeps both; the device is still found under the serial number; and resume
  fails without a single USB call, since it looks up the empty path.
\<close>

theorem bslhid_resume_looks_up_path_only:
  "bslhid_open Linux (\<lambda>c. 0)
     [\<lparr>bus_number = 1, device_address = 2, descriptor_rc = 0, idVendor = 0x2047,
       idProduct = 0x0200, bNumConfigurations = 1, serial_number = Some ''ABC'',
       config_rc = 0, bConfigurationValue = 1,
       interfaces = [\<lparr>bInterfaceClass = 3, bInterfaceNumber = 0,
                      endpoints = [(0x02, 0x81), (0x02, 0x01)]\<rparr>],
       open_rc = 0, open_handle = 7\<rparr>] None (Some ''ABC'') [0]
     = Some ([Open 1 2, KernelDriverActive 7 0, ClaimInterface 7 0, BulkIn 7 0x81 64],
             Inr \<lparr>cfg_number = 1, int_number = 0, handle = 7, in_ep = 0x81, out_ep = 0x01,
                  path = [], serial = ''ABC''\<rparr>)
   \<and> bslhid_suspend \<lparr>cfg_number = 1, int_number = 0, handle = 7, in_ep = 0x81, out_ep = 0x01,
                      path = [], serial = ''ABC''\<rparr>
     = ([ReleaseInterface 7 0, Close 7],
        \<lparr>cfg_number = 1, int_number = 0, handle = NULL, in_ep = 0x81, out_ep = 0x01,
         path = [], serial = ''ABC''\<rparr>)
   \<and> usbutil_find_by_id
        [\<lparr>bus_number = 1, device_address = 2, descriptor_rc = 0, idVendor = 0x2047,
          idProduct = 0x0200, bNumConfigurations = 1, serial_number = Some ''ABC'',
          config_rc = 0, bConfigurationValue = 1,
          interfaces = [\<lparr>bInterfaceClass = 3, bInterfaceNumber = 0,
                         endpoints = [(0x02, 0x81), (0x02, 0x01)]\<rparr>],
          open_rc = 0, open_handle = 7\<rparr>] BSLHID_VID BSLHID_PID (Some ''ABC'')
     = Some \<lparr>bus_number = 1, device_address = 2, descriptor_rc = 0, idVendor = 0x2047,
          idProduct = 0x0200, bNumConfigurations = 1, serial_number = Some ''ABC'',
          config_rc = 0, bConfigurationValue = 1,
          interfaces = [\<lparr>bInterfaceClass = 3, bInterfaceNumber = 0,
                         endpoints = [(0x02, 0x81), (0x02, 0x01)]\<rparr>],
          open_rc = 0, open_handle = 7\<rparr>
   \<and> bslhid_resume Linux (\<lambda>c. 0)
        [\<lparr>bus_number = 1, device_address = 2, descriptor_rc = 0, idVendor = 0x2047,
          idProduct = 0x0200, bNumConfigurations = 1, serial_number = Some ''ABC'',
          config_rc = 0, bConfigurationValue = 1,
          interfaces = [\<lparr>bInterfaceClass = 3, bInterfaceNumber = 0,
                         endpoints = [(0x02, 0x81), (0x02, 0x01)]\<rparr>],
          open_rc = 0, open_handle = 7\<rparr>]
        \<lparr>cfg_number = 1, int_number = 0, handle = NULL, in_ep = 0x81, out_ep = 0x01,
         path = [], serial = ''ABC''\<rparr>
     = ([], \<lparr>cfg_number = 1, int_number = 0, handle = NULL, in_ep = 0x81, out_ep = 0x01,
              path = [], serial = ''ABC''\<rparr>, Inl DiscoveryFailure)"
  by (simp add: usbutil_defs open_step_defs bslhid_open_defs)

text \<open>The same device, opened by path and suspended, is resumed.\<close>

lemma bslhid_resume_path_opened:
  "bslhid_resume Linux (\<lambda>c. 0)
        [\<lparr>bus_number = 1, device_address = 2, descriptor_rc = 0, idVendor = 0x2047,
          idProduct = 0x0200, bNumConfigurations = 1, serial_number = Some ''ABC'',
          config_rc = 0, bConfigurationValue = 1,
          interfaces = [\<lparr>bInterfaceClass = 3, bInterfaceNumber = 0,
                         endpoints = [(0x02, 0x81), (0x02, 0x01)]\<rparr>],
          open_rc = 0, open_handle = 9\<rparr>]
        \<lparr>cfg_number = 1, int_number = 0, handle = NULL, in_ep = 0x81, out_ep = 0x01,
         path = ''001:002'', serial = []\<rparr>
     = ([Open 1 2, KernelDriverActive 9 0, ClaimInterface 9 0],
        \<lparr>cfg_number = 1, int_number = 0, handle = 9, in_ep = 0x81, out_ep = 0x01,
              path = ''001:002'', serial = []\<rparr>, Inr ())"
  by (simp add: usbutil_defs open_step_defs bslhid_open_defs)

subsection \<open>Failures of open\<close>

lemmas cp210x_open_defs =
  cp210x_open_def cp210x_open_device_def cp210x_open_interface_def cp210x_configure_port_def
  cp210x_cfg_def V1_INTERFACE_CLASS_def V1_IN_EP_def CP210X_CLOCK_def CP210X_IFC_ENABLE_def
  CP210X_SET_BAUDDIV_def CP210X_SET_MHS_def CP210x_REQTYPE_HOST_TO_DEVICE_def

lemmas ftdi_open_defs =
  ftdi_open_def ftdi_open_device_def configure_ftdi_def do_cfg_def USB_INTERFACE_def
  USB_CONFIG_def FTDI_CLOCK_def REQTYPE_HOST_TO_DEVICE_def FTDI_SIO_RESET_def
  FTDI_SIO_RESET_SIO_def FTDI_SIO_SET_DATA_def

lemmas cdc_open_defs =
  cdc_acm_open_def cdc_acm_open_found_def cdc_find_interface_def cdc_open_interface_def
  cdc_configure_port_def cdc_cfg_def cdc_usbtr_destroy_def cdc_usbtr_flush_def line_coding_def
  CDC_INTERFACE_CLASS_def CDC_REQTYPE_HOST_TO_DEVICE_def CDC_SET_LINE_CODING_def
  CDC_SET_CONTROL_def

text \<open>
  When \<open>cdc_acm_open\<close> fails after it found the device, it leaves no
  interface claimed: it fails before the claim, or the claim fails, or
  \<open>usbtr_destroy\<close> releases the interface.
\<close>

lemma cdc_open_interface_failure:
  assumes "cdc_open_interface os usb tr d = (cs, tr', Inl e)"
  shows "unreleased_interfaces usb cs = []"
  using assms
  by (auto simp: cdc_open_interface_def Let_def detach_calls_def split: if_splits)

lemma cdc_acm_open_failure_releases:
  assumes "cdc_acm_open_found os usb tr0 d baud_rate rcs = Some (cs, Inl e)"
  shows "unreleased_interfaces usb cs = []"
proof (cases "cdc_find_interface tr0 d")
  case (Pair tr1 r1)
  show ?thesis
  proof (cases r1)
    case (Inl e1)
    with Pair assms show ?thesis
      by (simp add: cdc_acm_open_found_def)
  next
    case (Inr u1)
    obtain cs2 tr2 r2 where o: "cdc_open_interface os usb tr1 d = (cs2, tr2, r2)"
      by (cases "cdc_open_interface os usb tr1 d") auto
    show ?thesis
    proof (cases r2)
      case (Inl e2)
      with Pair Inr o assms cdc_open_interface_failure [of os usb tr1 d cs2 tr2 e2]
      show ?thesis
        by (simp add: cdc_acm_open_found_def)
    next
      case r2: (Inr u2)
      with Pair Inr o assms show ?thesis
        by (auto simp: cdc_acm_open_found_def cdc_open_interface_def Let_def detach_calls_def
            cdc_usbtr_destroy_def cdc_configure_port_def cdc_cfg_def and_then_def
            split: if_splits sum.splits prod.splits option.splits)
    qed
  qed
qed

text \<open>
  C5. Whenever open fails, every interface claimed during the call should
  have been released and every handle opened should have been closed. The
  handle is closed, but the CP210x and the FTDI transport do not release the
  interface: on a device that is found, opened and claimed, and whose first
  configuration transfer fails, \<open>cp210x_open\<close> and \<open>ftdi_open\<close> claim
  interface 0 on handle 7 and close the handle, and no call releases the
  interface: the calls leave it claimed. \<open>cdc_acm_open\<close>, on the same failure,
  releases it before it closes the handle.
\<close>

theorem failed_open_closes_without_release:
  "cp210x_open Linux no_control
     [\<lparr>bus_number = 1, device_address = 2, descriptor_rc = 0, idVendor = 0x10c4,
       idProduct = 0xea60, bNumConfigurations = 1, serial_number = None,
       config_rc = 0, bConfigurationValue = 1,
       interfaces = [\<lparr>bInterfaceClass = 255, bInterfaceNumber = 0,
                      endpoints = [(0x02, 0x81), (0x02, 0x01)]\<rparr>],
       open_rc = 0, open_handle = 7\<rparr>] (Some ''1:2'') None 9600 0xea60 0x10c4 []
     = Some ([Open 1 2, KernelDriverActive 7 0, ClaimInterface 7 0,
              Control 7 0x41 0x00 0x1 0 [], Close 7], Inl ConfigurationFailure)
   \<and> ftdi_open Linux no_control
     [\<lparr>bus_number = 1, device_address = 2, descriptor_rc = 0, idVendor = 0x0403,
       idProduct = 0x6001, bNumConfigurations = 1, serial_number = None,
       config_rc = 0, bConfigurationValue = 1,
       interfaces = [\<lparr>bInterfaceClass = 255, bInterfaceNumber = 0,
                      endpoints = [(0x02, 0x81), (0x02, 0x02)]\<rparr>],
       open_rc = 0, open_handle = 7\<rparr>] (Some ''1:2'') None 0x0403 0x6001 9600
     = ([Open 1 2, KernelDriverActive 7 0, ClaimInterface 7 0,
         Control 7 0x40 0 0 0 [], Close 7], Inl ControlFailure)
   \<and> cdc_acm_open Linux no_control
     [\<lparr>bus_number = 1, device_address = 2, descriptor_rc = 0, idVendor = 0x2047,
       idProduct = 0x0013, bNumConfigurations = 1, serial_number = None,
       config_rc = 0, bConfigurationValue = 1,
       interfaces = [\<lparr>bInterfaceClass = 10, bInterfaceNumber = 0,
                      endpoints = [(0x02, 0x81), (0x02, 0x01)]\<rparr>],
       open_rc = 0, open_handle = 7\<rparr>] (Some ''1:2'') None 9600 0x2047 0x0013 []
     = Some ([Open 1 2, KernelDriverActive 7 0, ClaimInterface 7 0,
              Control 7 0x21 0x20 0 0 [0x80, 0x25, 0, 0, 0, 0, 8],
              ReleaseInterface 7 0, Close 7], Inl ControlFailure)
   \<and> unreleased_interfaces no_control
        [Open 1 2, KernelDriverActive 7 0, ClaimInterface 7 0,
         Control 7 0x41 0x00 0x1 0 [], Close 7] = [(7, 0)]
   \<and> unreleased_interfaces no_control
        [Open 1 2, KernelDriverActive 7 0, ClaimInterface 7 0,
         Control 7 0x40 0 0 0 [], Close 7] = [(7, 0)]
   \<and> unreleased_interfaces no_control
        [Open 1 2, KernelDriverActive 7 0, ClaimInterface 7 0,
         Control 7 0x21 0x20 0 0 [0x80, 0x25, 0, 0, 0, 0, 8],
         ReleaseInterface 7 0, Close 7] = []"
  by (simp add: usbutil_defs open_step_defs cp210x_open_defs ftdi_open_defs cdc_open_defs)

lemmas ti_defs =
  ti3410_open_setup_def setup_port_def do_open_start_def set_termios_def set_mcr_def
  ti_ctrl_def interrupt_flush_def clear_halts_def teardown_port_def tios_data_def wb_data_def
  TI_REQTYPE_def TI_UART1_PORT_def TI_RAM_PORT_def TI_SET_CONFIG_def
  TI_OPEN_PORT_def TI_CLOSE_PORT_def TI_START_PORT_def TI_PURGE_PORT_def TI_WRITE_DATA_def
  TI_PURGE_OUTPUT_def TI_PURGE_INPUT_def USB_FET_IN_EP_def USB_FET_OUT_EP_def
  USB_FET_INT_EP_def

text \<open>
  \<open>libusb_control_transfer\<close> returns the number of bytes transferred when it
  succeeds. The line coding has 7 bytes and the UART configuration 10, and
  both functions take every return code other than 0 for a failure.
\<close>

lemma cdc_configure_port_full_line_coding:
  assumes "usb (Control (cdc_handle tr) 0x21 0x20 0 0 (line_coding baud_rate)) = 7"
  shows "snd (cdc_configure_port usb tr baud_rate) = Inl ControlFailure"
  using assms
  by (simp add: cdc_configure_port_def cdc_cfg_def and_then_def Let_def
      CDC_REQTYPE_HOST_TO_DEVICE_def CDC_SET_LINE_CODING_def)

lemma set_termios_full_payload:
  assumes "usb (Control (ti_handle tr) 0x40 0x05 0 0x03 tios_data) = 10"
  shows "snd (set_termios usb tr) = Inl ControlFailure"
  using assms
  by (simp add: set_termios_def ti_ctrl_def Let_def TI_REQTYPE_def TI_SET_CONFIG_def
      TI_UART1_PORT_def)

text \<open>
  C6. A configuration control transfer that transfers its full payload
  should not be a failure of bring-up. In the code it is: on a device on
  which every control transfer succeeds, the 7-byte line coding transfer
  returns 7 and \<open>cdc_acm_open\<close> fails at that step, destroying the instance;
  the 10-byte UART configuration returns 10 and \<open>set_termios\<close> fails, so that
  the port set-up of \<open>ti3410_open\<close> fails at its first control transfer,
  closes the port and the handle.
\<close>

theorem full_control_transfer_fails_open:
  "cdc_acm_open Linux full_transfer
     [\<lparr>bus_number = 1, device_address = 2, descriptor_rc = 0, idVendor = 0x2047,
       idProduct = 0x0013, bNumConfigurations = 1, serial_number = None,
       config_rc = 0, bConfigurationValue = 1,
       interfaces = [\<lparr>bInterfaceClass = 10, bInterfaceNumber = 0,
                      endpoints = [(0x02, 0x81), (0x02, 0x01)]\<rparr>],
       open_rc = 0, open_handle = 7\<rparr>] (Some ''1:2'') None 9600 0x2047 0x0013 [0]
     = Some ([Open 1 2, KernelDriverActive 7 0, ClaimInterface 7 0,
              Control 7 0x21 0x20 0 0 [0x80, 0x25, 0, 0, 0, 0, 8],
              ReleaseInterface 7 0, Close 7], Inl ControlFailure)
   \<and> full_transfer (Control 7 0x21 0x20 0 0 [0x80, 0x25, 0, 0, 0, 0, 8]) = 7
   \<and> set_termios full_transfer \<lparr>ti_handle = 7\<rparr>
     = ([Control 7 0x40 0x05 0 0x03 [0x00, 0x02, 0x60, 0x00, 0x03, 0x00, 0x00, 0x00, 0x00, 0x00]],
        Inl ControlFailure)
   \<and> full_transfer
        (Control 7 0x40 0x05 0 0x03 [0x00, 0x02, 0x60, 0x00, 0x03, 0x00, 0x00, 0x00, 0x00, 0x00])
     = 10
   \<and> ti3410_open_setup full_transfer \<lparr>ti_handle = 7\<rparr>
     = ([InterruptIn 7 0x83 2,
         Control 7 0x40 0x05 0 0x03 [0x00, 0x02, 0x60, 0x00, 0x03, 0x00, 0x00, 0x00, 0x00, 0x00],
         Control 7 0x40 0x07 0 0x03 [], Close 7], Inl ControlFailure)"
  by (simp add: usbutil_defs open_step_defs cdc_open_defs ti_defs)

end
